theory Spec2Isabelle
  imports Complex_Main
begin

section \<open>Values, exceptions and data frames\<close>

text \<open>
  The converter (\<^verbatim>\<open>PDFToExcelConverter.convert_single_file\<close>) reads tables as
  lists of rows of cells from the PDF reader, each cell a string or \<^verbatim>\<open>None\<close>, and
  handles them as pandas data frames. A frame cell is a string, a null (\<^verbatim>\<open>None\<close> or
  \<^verbatim>\<open>NaN\<close>, which \<^verbatim>\<open>fillna\<close> treats alike) or an integer (the
  bookkeeping columns \<^verbatim>\<open>_page\<close> and \<^verbatim>\<open>_table\<close>, and the
  \<^verbatim>\<open>Page\<close> column of the text dump).
\<close>

datatype cell = Null | Str string | Num nat

text \<open>Every exception of the modelled code is a value.\<close>

datatype error =
    ValueError          \<comment> \<open>pandas: "N columns passed, passed data had M columns"\<close>
  | KeyError            \<comment> \<open>pandas: no column with that label\<close>
  | IndexError          \<comment> \<open>pandas: \<^verbatim>\<open>iloc[0]\<close> on a frame without rows\<close>
  | OpenError           \<comment> \<open>\<^verbatim>\<open>pdfplumber.open\<close> failed\<close>
  | WriteError          \<comment> \<open>the workbook could not be written to the path\<close>
  | NoContent           \<comment> \<open>\<^verbatim>\<open>Exception("PDF ... no content to extract")\<close>\<close>
  | ZeroDivisionError   \<comment> \<open>float division by zero\<close>
  | TypeError           \<comment> \<open>subscript of \<^verbatim>\<open>None\<close>\<close>

type_synonym raw_row = "string option list"
type_synonym raw_table = "raw_row list"

definition of_raw :: "string option \<Rightarrow> cell" where
  "of_raw c = (case c of None \<Rightarrow> Null | Some s \<Rightarrow> Str s)"

text \<open>Python's \<^verbatim>\<open>str\<close> of a non-negative integer: its decimal digits.\<close>

definition digit_char :: "nat \<Rightarrow> char" where
  "digit_char d = ''0123456789'' ! d"

fun str_nat :: "nat \<Rightarrow> string" where
  "str_nat n =
     (if n < 10 then [digit_char n] else str_nat (n div 10) @ [digit_char (n mod 10)])"

declare str_nat.simps [simp del]

record dataframe =
  columns :: "cell list"
  rows :: "cell list list"

definition list_max :: "nat list \<Rightarrow> nat" where
  "list_max ns = fold max ns 0"

text \<open>
  \<^verbatim>\<open>pd.DataFrame(data, columns=cols)\<close> on a list of lists: the content is as wide as
  the longest row, shorter rows are filled up with nulls, and a column list of another
  length is refused with \<^verbatim>\<open>ValueError\<close>. An empty \<^verbatim>\<open>data\<close> gives a
  frame without rows. Without \<^verbatim>\<open>columns\<close> (\<open>DataFrame_plain\<close>) the labels are
  \<open>0, 1, \<dots>\<close> and nothing is refused.
\<close>

definition frame_content :: "cell list list \<Rightarrow> cell list list" where
  "frame_content data =
     (let k = list_max (map length data)
      in map (\<lambda>r. r @ replicate (k - length r) Null) data)"

definition DataFrame :: "cell list list \<Rightarrow> cell list \<Rightarrow> error + dataframe" where
  "DataFrame data cols =
     (if data = [] then Inr \<lparr>columns = cols, rows = []\<rparr>
      else if length cols \<noteq> list_max (map length data) then Inl ValueError
      else Inr \<lparr>columns = cols, rows = frame_content data\<rparr>)"

definition DataFrame_plain :: "cell list list \<Rightarrow> dataframe" where
  "DataFrame_plain data =
     \<lparr>columns = map Num [0..<list_max (map length data)], rows = frame_content data\<rparr>"

text \<open>
  \<^verbatim>\<open>df[key] = v\<close> with a scalar \<open>v\<close>: every column labelled \<open>key\<close> is
  overwritten with \<open>v\<close>; when there is none, a new last column is added.
\<close>

definition setitem :: "dataframe \<Rightarrow> cell \<Rightarrow> cell \<Rightarrow> dataframe" where
  "setitem df key v =
     (if key \<in> set (columns df)
      then df\<lparr>rows := map (\<lambda>r. map (\<lambda>(c, x). if c = key then v else x) (zip (columns df) r))
                          (rows df)\<rparr>
      else df\<lparr>columns := columns df @ [key], rows := map (\<lambda>r. r @ [v]) (rows df)\<rparr>)"

text \<open>
  \<^verbatim>\<open>df.drop(labels, axis=1, errors='ignore')\<close>: every column whose label is listed
  goes, and a listed label that no column has is ignored.
\<close>

definition keep_cells :: "cell list \<Rightarrow> cell list \<Rightarrow> cell list \<Rightarrow> cell list" where
  "keep_cells labels cols r = map snd (filter (\<lambda>(c, x). c \<notin> set labels) (zip cols r))"

definition drop_cols :: "cell list \<Rightarrow> dataframe \<Rightarrow> dataframe" where
  "drop_cols labels df =
     \<lparr>columns = filter (\<lambda>c. c \<notin> set labels) (columns df),
      rows = map (keep_cells labels (columns df)) (rows df)\<rparr>"

definition fill_cell :: "cell \<Rightarrow> cell \<Rightarrow> cell" where
  "fill_cell v x = (if x = Null then v else x)"

definition fillna :: "cell \<Rightarrow> dataframe \<Rightarrow> dataframe" where
  "fillna v df = df\<lparr>rows := map (map (fill_cell v)) (rows df)\<rparr>"

text \<open>The invariant of a frame: every row has one cell for every column.\<close>

definition rectangular :: "dataframe \<Rightarrow> bool" where
  "rectangular df = (\<forall>r\<in>set (rows df). length r = length (columns df))"

text \<open>
  \<^verbatim>\<open>df[key].iloc[0]\<close>: the first row of the columns labelled \<open>key\<close>. One such
  column gives a scalar; several give a pandas \<^verbatim>\<open>Series\<close>.
\<close>

datatype pyobj = Scalar cell | Series "cell list"

definition label_cells :: "cell \<Rightarrow> cell list \<Rightarrow> cell list \<Rightarrow> cell list" where
  "label_cells key cols r = map snd (filter (\<lambda>(c, x). c = key) (zip cols r))"

definition as_obj :: "cell list \<Rightarrow> pyobj" where
  "as_obj xs = (case xs of [x] \<Rightarrow> Scalar x | _ \<Rightarrow> Series xs)"

definition getitem_iloc0 :: "dataframe \<Rightarrow> cell \<Rightarrow> error + pyobj" where
  "getitem_iloc0 df key =
     (if key \<notin> set (columns df) then Inl KeyError
      else case rows df of
             [] \<Rightarrow> Inl IndexError
           | r # _ \<Rightarrow> Inr (as_obj (label_cells key (columns df) r)))"

text \<open>
  The text an f-string puts for a value. How pandas prints a \<^verbatim>\<open>Series\<close> is not
  modelled: it is the parameter \<open>series_str\<close>.
\<close>

fun py_str :: "(cell list \<Rightarrow> string) \<Rightarrow> pyobj \<Rightarrow> string" where
  "py_str series_str (Scalar (Num n)) = str_nat n"
| "py_str series_str (Scalar (Str s)) = s"
| "py_str series_str (Scalar Null) = ''None''"
| "py_str series_str (Series xs) = series_str xs"

section \<open>Table extraction\<close>

text \<open>
  The body of the loop over the tables of a page (lines 1512 to 1519). \<open>None\<close> is a
  table that is skipped; an exception of the frame's construction leaves the function.
\<close>

definition table_header :: "raw_table \<Rightarrow> cell list" where
  "table_header table =
     (if hd table \<noteq> [] then map of_raw (hd table)
      else map (\<lambda>i. Str (''Col'' @ str_nat i))
             [0..<(if length table > 1 then length (table ! 1) else 1)])"

definition table_data :: "raw_table \<Rightarrow> raw_row list" where
  "table_data table = (if length table > 1 then tl table else [])"

definition table_frame :: "nat \<Rightarrow> nat \<Rightarrow> raw_table \<Rightarrow> error + dataframe option" where
  "table_frame page_num table_idx table =
     (if table \<noteq> [] \<and> length table > 0 then
        let header = table_header table;
            data = table_data table
        in if data \<noteq> [] then
             (case DataFrame (map (map of_raw) data) header of
                Inl e \<Rightarrow> Inl e
              | Inr df \<Rightarrow>
                  Inr (Some (setitem (setitem df (Str ''_page'') (Num (page_num + 1)))
                                     (Str ''_table'') (Num (table_idx + 1)))))
           else Inr None
      else Inr None)"

text \<open>
  A page as the PDF reader shows it: what \<^verbatim>\<open>extract_tables()\<close> and
  \<^verbatim>\<open>extract_text()\<close> return.
\<close>

record page =
  tables :: "raw_table list"
  page_text :: "string option"

text \<open>
  A loop that appends to a list and is left by the first exception.
\<close>

fun collect :: "('a \<Rightarrow> error + 'b list) \<Rightarrow> 'a list \<Rightarrow> error + 'b list" where
  "collect f [] = Inr []"
| "collect f (x # xs) =
     (case f x of
        Inl e \<Rightarrow> Inl e
      | Inr ys \<Rightarrow> (case collect f xs of Inl e \<Rightarrow> Inl e | Inr zs \<Rightarrow> Inr (ys @ zs)))"

definition table_frames :: "nat \<Rightarrow> nat \<Rightarrow> raw_table \<Rightarrow> error + dataframe list" where
  "table_frames page_num table_idx table =
     (case table_frame page_num table_idx table of
        Inl e \<Rightarrow> Inl e
      | Inr None \<Rightarrow> Inr []
      | Inr (Some df) \<Rightarrow> Inr [df])"

definition page_frames :: "nat \<Rightarrow> page \<Rightarrow> error + dataframe list" where
  "page_frames page_num pg =
     collect (\<lambda>(table_idx, table). table_frames page_num table_idx table)
             (enumerate 0 (tables pg))"

definition all_frames :: "page list \<Rightarrow> error + dataframe list" where
  "all_frames pages = collect (\<lambda>(page_num, pg). page_frames page_num pg) (enumerate 0 pages)"

section \<open>The text dump\<close>

text \<open>Lines 1523 to 1530: one record for every page whose text is truthy.\<close>

definition text_records :: "page list \<Rightarrow> (nat \<times> string) list" where
  "text_records pages =
     concat (map (\<lambda>(page_num, pg).
                    case page_text pg of
                      None \<Rightarrow> []
                    | Some t \<Rightarrow> if t \<noteq> [] then [(page_num + 1, t)] else [])
                 (enumerate 0 pages))"

text \<open>\<^verbatim>\<open>pd.DataFrame(text_data)\<close> on the list of \<^verbatim>\<open>{'Page', 'Content'}\<close> records.\<close>

definition text_frame :: "(nat \<times> string) list \<Rightarrow> dataframe" where
  "text_frame text_data =
     \<lparr>columns = [Str ''Page'', Str ''Content''],
      rows = map (\<lambda>(n, t). [Num n, Str t]) text_data\<rparr>"

section \<open>Workbook layout\<close>

text \<open>
  A sheet as \<^verbatim>\<open>to_excel(..., index=False)\<close> writes it: its name, the header row
  (the frame's column labels) unless \<^verbatim>\<open>header=False\<close>, and the rows. A workbook is
  the sequence of the sheets written to it.
\<close>

record sheet =
  sheet_name :: string
  header :: "cell list option"
  body :: "cell list list"

type_synonym workbook = "sheet list"

definition to_excel :: "dataframe \<Rightarrow> string \<Rightarrow> bool \<Rightarrow> sheet" where
  "to_excel df name with_header =
     \<lparr>sheet_name = name,
      header = (if with_header then Some (columns df) else None),
      body = rows df\<rparr>"

definition meta_labels :: "cell list" where
  "meta_labels = [Str ''_page'', Str ''_table'']"

subsection \<open>Merge mode (lines 1541 to 1556)\<close>

definition table_block :: "dataframe \<Rightarrow> cell list list" where
  "table_block df0 =
     (let df = drop_cols meta_labels df0
      in [columns df] @ rows df @ [replicate (length (columns df)) (Str '''')])"

definition merge_rows :: "dataframe list \<Rightarrow> cell list list" where
  "merge_rows all_tables = concat (map table_block all_tables)"

definition max_cols :: "cell list list \<Rightarrow> nat" where
  "max_cols all_rows = (if all_rows \<noteq> [] then list_max (map length all_rows) else 1)"

definition pad_row :: "nat \<Rightarrow> cell list \<Rightarrow> cell list" where
  "pad_row m row = (if length row < m then row @ replicate (m - length row) (Str '''') else row)"

definition merged_sheet :: "dataframe list \<Rightarrow> sheet" where
  "merged_sheet all_tables =
     (let all_rows = merge_rows all_tables;
          padded = map (pad_row (max_cols all_rows)) all_rows;
          merged_df = fillna (Str '''') (DataFrame_plain padded)
      in to_excel merged_df ''All Tables'' False)"

subsection \<open>Separate mode (lines 1558 to 1564)\<close>

definition sheet_title :: "string \<Rightarrow> string \<Rightarrow> string" where
  "sheet_title page_str table_str = take 31 (''Page'' @ page_str @ ''_Table'' @ table_str)"

definition normalized :: "dataframe \<Rightarrow> dataframe" where
  "normalized df = fillna (Str '''') (drop_cols meta_labels df)"

definition separate_sheet :: "(cell list \<Rightarrow> string) \<Rightarrow> dataframe \<Rightarrow> error + sheet list" where
  "separate_sheet sr df =
     (case getitem_iloc0 df (Str ''_page'') of
        Inl e \<Rightarrow> Inl e
      | Inr pg \<Rightarrow>
          (case getitem_iloc0 df (Str ''_table'') of
             Inl e \<Rightarrow> Inl e
           | Inr tb \<Rightarrow>
               Inr [to_excel (normalized df) (sheet_title (py_str sr pg) (py_str sr tb)) True]))"

definition separate_sheets :: "(cell list \<Rightarrow> string) \<Rightarrow> dataframe list \<Rightarrow> error + sheet list" where
  "separate_sheets sr all_tables = collect (separate_sheet sr) all_tables"

section \<open>Converting one file, and a batch\<close>

text \<open>
  The files the converter reads and writes. Opening a path as a PDF succeeds when a PDF
  is there; a workbook is written whole, and only to a path that can be written.
\<close>

type_synonym path = string

datatype content = Pdf "page list" | Xlsx workbook | Other

type_synonym filesystem = "path \<Rightarrow> content option"

record env =
  writable :: "path \<Rightarrow> bool"
  series_str :: "cell list \<Rightarrow> string"

definition pdfplumber_open :: "filesystem \<Rightarrow> path \<Rightarrow> error + page list" where
  "pdfplumber_open fs p = (case fs p of Some (Pdf pages) \<Rightarrow> Inr pages | _ \<Rightarrow> Inl OpenError)"

definition write_workbook :: "env \<Rightarrow> filesystem \<Rightarrow> path \<Rightarrow> workbook \<Rightarrow> error + filesystem" where
  "write_workbook ev fs p wb = (if writable ev p then Inr (fs(p \<mapsto> Xlsx wb)) else Inl WriteError)"

definition text_dump :: "env \<Rightarrow> filesystem \<Rightarrow> path \<Rightarrow> path \<Rightarrow> error + filesystem" where
  "text_dump ev fs pdf_path excel_path =
     (case pdfplumber_open fs pdf_path of
        Inl e \<Rightarrow> Inl e
      | Inr pages \<Rightarrow>
          (let text_data = text_records pages
           in if text_data \<noteq> []
              then write_workbook ev fs excel_path
                     [to_excel (text_frame text_data) ''Text Content'' True]
              else Inl NoContent))"

definition convert_single_file ::
    "env \<Rightarrow> filesystem \<Rightarrow> path \<Rightarrow> path \<Rightarrow> bool \<Rightarrow> error + filesystem" where
  "convert_single_file ev fs pdf_path excel_path merge_tables =
     (case pdfplumber_open fs pdf_path of
        Inl e \<Rightarrow> Inl e
      | Inr pages \<Rightarrow>
          (case all_frames pages of
             Inl e \<Rightarrow> Inl e
           | Inr all_tables \<Rightarrow>
               if all_tables = [] then text_dump ev fs pdf_path excel_path
               else if \<not> writable ev excel_path then Inl WriteError
               else if merge_tables
               then write_workbook ev fs excel_path [merged_sheet all_tables]
               else (case separate_sheets (series_str ev) all_tables of
                       Inl e \<Rightarrow> Inl e
                     | Inr sheets \<Rightarrow> write_workbook ev fs excel_path sheets)))"

text \<open>
  \<^verbatim>\<open>convert_files\<close>: every queued pair is attempted in turn; an exception of one
  conversion is caught and shown as an error message for that file, and the closing
  message follows the last file.
\<close>

datatype message = ConversionFailed path error | Completed

record batch =
  files :: filesystem
  messages :: "message list"

definition attempt :: "env \<Rightarrow> bool \<Rightarrow> batch \<Rightarrow> path \<times> path \<Rightarrow> batch" where
  "attempt ev merge_tables st job =
     (case convert_single_file ev (files st) (fst job) (snd job) merge_tables of
        Inr fs' \<Rightarrow> st\<lparr>files := fs'\<rparr>
      | Inl e \<Rightarrow> st\<lparr>messages := messages st @ [ConversionFailed (fst job) e]\<rparr>)"

definition convert_files :: "env \<Rightarrow> (path \<times> path) list \<Rightarrow> bool \<Rightarrow> batch \<Rightarrow> batch" where
  "convert_files ev save_paths merge_tables st =
     (let st' = foldl (attempt ev merge_tables) st save_paths
      in st'\<lparr>messages := messages st' @ [Completed]\<rparr>)"

text \<open>What one queued pair adds to the messages, and the files it leaves.\<close>

definition job_messages :: "env \<Rightarrow> bool \<Rightarrow> filesystem \<Rightarrow> path \<times> path \<Rightarrow> message list" where
  "job_messages ev merge_tables fs job =
     (case convert_single_file ev fs (fst job) (snd job) merge_tables of
        Inl e \<Rightarrow> [ConversionFailed (fst job) e]
      | Inr fs' \<Rightarrow> [])"

definition job_files :: "env \<Rightarrow> bool \<Rightarrow> filesystem \<Rightarrow> path \<times> path \<Rightarrow> filesystem" where
  "job_files ev merge_tables fs job =
     (case convert_single_file ev fs (fst job) (snd job) merge_tables of
        Inl e \<Rightarrow> fs
      | Inr fs' \<Rightarrow> fs')"

section \<open>The PDF editor: geometry and gestures\<close>

text \<open>
  Coordinates are Python floats; they are modelled as real numbers, so rounding is not
  part of the model. An annotation is what the editor reads and writes of it: its
  \<^verbatim>\<open>xref\<close>, its type code (\<^verbatim>\<open>annot.type[0]\<close>: 0 text note, 2 free text,
  3 line, 4 square, 5 circle, 8 highlight, 12 redaction), its rectangle and its vertices
  (none for \<^verbatim>\<open>None\<close>). Colours, opacity and border width, which the drawing
  functions also set, are left out. For a new annotation the rectangle is the box the
  drawing function hands to the library (for a line, the box of its end points; for a
  text note, the 20 by 20 icon box at the point).
\<close>

type_synonym point = "real \<times> real"

record rect =
  x0 :: real
  y0 :: real
  x1 :: real
  y1 :: real

record annot =
  xref :: nat
  annot_type :: nat
  annot_rect :: rect
  vertices :: "point list"

text \<open>
  The open document: the annotations of every page in the library's order, the next
  free \<^verbatim>\<open>xref\<close>, and the regions whose content applied redactions have removed.
\<close>

record document =
  annots :: "nat \<Rightarrow> annot list"
  next_xref :: nat
  redacted :: "(nat \<times> rect) list"

datatype tool = Select | Line | Circle | Rect | Highlight | Note | TextBox | Redact

datatype notice = ShowWarning | ShowInfo path | ShowError error

record editor =
  current_pdf :: "document option"
  current_page :: nat
  zoom_level :: real
  scroll :: point
  current_tool :: tool
  drag_start :: "point option"
  temp_shape :: bool
  selected_annot_xref :: "nat option"
  is_moving :: bool
  moving_annot_rect :: "rect option"
  move_preview :: bool
  modified :: bool
  notices :: "notice list"
  saved :: "(path \<times> document) list"

text \<open>What the user answers to the dialogs a handler opens.\<close>

record answers =
  askstring :: "string option"
  askinteger :: "nat option"
  askyesno :: bool

definition canvasx :: "editor \<Rightarrow> real \<Rightarrow> real" where
  "canvasx s x = x + fst (scroll s)"

definition canvasy :: "editor \<Rightarrow> real \<Rightarrow> real" where
  "canvasy s y = y + snd (scroll s)"

text \<open>Lines 750 to 756, and the same scaling the other way (lines 671 to 673).\<close>

definition canvas_to_pdf_point :: "editor \<Rightarrow> point \<Rightarrow> error + point" where
  "canvas_to_pdf_point s canvas_coords =
     (let zoom = zoom_level s * 1.5
      in if zoom = 0 then Inl ZeroDivisionError
         else Inr (fst canvas_coords / zoom, snd canvas_coords / zoom))"

definition canvas_to_pdf :: "editor \<Rightarrow> real \<Rightarrow> real \<Rightarrow> error + point" where
  "canvas_to_pdf s x y =
     (let canvas_x = canvasx s x;
          canvas_y = canvasy s y;
          zoom = zoom_level s * 1.5
      in if zoom = 0 then Inl ZeroDivisionError
         else Inr (canvas_x / zoom, canvas_y / zoom))"

definition pdf_to_canvas_point :: "editor \<Rightarrow> point \<Rightarrow> point" where
  "pdf_to_canvas_point s p =
     (let zoom = zoom_level s * 1.5 in (fst p * zoom, snd p * zoom))"

text \<open>
  \<^verbatim>\<open>highlight_selected_annot\<close>: the corners of the selection frame drawn around an
  annotation's rectangle.
\<close>

definition highlight_selected_annot :: "editor \<Rightarrow> rect \<Rightarrow> rect" where
  "highlight_selected_annot s r =
     (let zoom = zoom_level s * 1.5
      in \<lparr>x0 = x0 r * zoom - 3, y0 = y0 r * zoom - 3,
          x1 = x1 r * zoom + 3, y1 = y1 r * zoom + 3\<rparr>)"

definition normalize_rect :: "rect \<Rightarrow> rect" where
  "normalize_rect r =
     \<lparr>x0 = min (x0 r) (x1 r), y0 = min (y0 r) (y1 r),
      x1 = max (x0 r) (x1 r), y1 = max (y0 r) (y1 r)\<rparr>"

definition rect_of :: "point \<Rightarrow> point \<Rightarrow> rect" where
  "rect_of p q = \<lparr>x0 = fst p, y0 = snd p, x1 = fst q, y1 = snd q\<rparr>"

text \<open>\<^verbatim>\<open>rect.contains(point)\<close>, the border counted as inside.\<close>

definition contains :: "rect \<Rightarrow> point \<Rightarrow> bool" where
  "contains r p = (x0 r \<le> fst p \<and> fst p \<le> x1 r \<and> y0 r \<le> snd p \<and> snd p \<le> y1 r)"

text \<open>The library adds an annotation to the current page and gives it a fresh xref.\<close>

definition add_annot :: "nat \<Rightarrow> document \<Rightarrow> nat \<Rightarrow> rect \<Rightarrow> point list \<Rightarrow> document" where
  "add_annot pg d ty r vs =
     d\<lparr>annots := (annots d)(pg := annots d pg
                  @ [\<lparr>xref = next_xref d, annot_type = ty, annot_rect = r, vertices = vs\<rparr>]),
       next_xref := next_xref d + 1\<rparr>"

text \<open>
  \<^verbatim>\<open>page.apply_redactions()\<close>: the redaction marks of the page are applied (the
  content under them is removed) and the marks themselves go.
\<close>

definition apply_redactions :: "nat \<Rightarrow> document \<Rightarrow> document" where
  "apply_redactions pg d =
     d\<lparr>annots := (annots d)(pg := filter (\<lambda>a. annot_type a \<noteq> 12) (annots d pg)),
       redacted := redacted d
                   @ map (\<lambda>a. (pg, annot_rect a)) (filter (\<lambda>a. annot_type a = 12) (annots d pg))\<rparr>"

text \<open>
  The drawing functions (lines 872 to 955 and 1217 to 1234): the page is looked up, the
  two corners are scaled, the library adds the annotation, and the document is marked
  modified. The library is taken to accept every box it is handed.
\<close>

definition draw_shape ::
    "editor \<Rightarrow> point \<Rightarrow> point \<Rightarrow> (document \<Rightarrow> point \<Rightarrow> point \<Rightarrow> document) \<Rightarrow> error + editor" where
  "draw_shape s start finish build =
     (case current_pdf s of
        None \<Rightarrow> Inl TypeError
      | Some d \<Rightarrow>
          (case canvas_to_pdf_point s start of
             Inl e \<Rightarrow> Inl e
           | Inr p1 \<Rightarrow>
               (case canvas_to_pdf_point s finish of
                  Inl e \<Rightarrow> Inl e
                | Inr p2 \<Rightarrow> Inr (s\<lparr>current_pdf := Some (build d p1 p2), modified := True\<rparr>))))"

definition draw_line_annot :: "editor \<Rightarrow> point \<Rightarrow> point \<Rightarrow> error + editor" where
  "draw_line_annot s start finish =
     draw_shape s start finish
       (\<lambda>d p1 p2. add_annot (current_page s) d 3 (normalize_rect (rect_of p1 p2)) [p1, p2])"

definition draw_circle_annot :: "editor \<Rightarrow> point \<Rightarrow> point \<Rightarrow> error + editor" where
  "draw_circle_annot s start finish =
     draw_shape s start finish
       (\<lambda>d p1 p2. add_annot (current_page s) d 5 (normalize_rect (rect_of p1 p2)) [])"

definition draw_rect_annot :: "editor \<Rightarrow> point \<Rightarrow> point \<Rightarrow> error + editor" where
  "draw_rect_annot s start finish =
     draw_shape s start finish
       (\<lambda>d p1 p2. add_annot (current_page s) d 4 (normalize_rect (rect_of p1 p2)) [])"

definition add_highlight :: "editor \<Rightarrow> point \<Rightarrow> point \<Rightarrow> error + editor" where
  "add_highlight s start finish =
     draw_shape s start finish
       (\<lambda>d p1 p2. add_annot (current_page s) d 8 (normalize_rect (rect_of p1 p2)) [])"

definition add_redaction :: "answers \<Rightarrow> editor \<Rightarrow> point \<Rightarrow> point \<Rightarrow> error + editor" where
  "add_redaction ans s start finish =
     draw_shape s start finish
       (\<lambda>d p1 p2. let d' = add_annot (current_page s) d 12 (normalize_rect (rect_of p1 p2)) []
                  in if askyesno ans then apply_redactions (current_page s) d' else d')"

text \<open>The point tools (lines 957 to 1018).\<close>

definition add_sticky_note :: "answers \<Rightarrow> editor \<Rightarrow> real \<Rightarrow> real \<Rightarrow> error + editor" where
  "add_sticky_note ans s x y =
     (case current_pdf s of
        None \<Rightarrow> Inr s
      | Some d \<Rightarrow>
          (case askstring ans of
             None \<Rightarrow> Inr s
           | Some txt \<Rightarrow>
               if txt = [] then Inr s
               else (case canvas_to_pdf s x y of
                       Inl e \<Rightarrow> Inl e
                     | Inr p \<Rightarrow>
                         Inr (s\<lparr>current_pdf :=
                                   Some (add_annot (current_page s) d 0
                                           \<lparr>x0 = fst p, y0 = snd p,
                                              x1 = fst p + 20, y1 = snd p + 20\<rparr> []),
                                 modified := True\<rparr>))))"

definition add_text_box :: "answers \<Rightarrow> editor \<Rightarrow> real \<Rightarrow> real \<Rightarrow> error + editor" where
  "add_text_box ans s x y =
     (case current_pdf s of
        None \<Rightarrow> Inr s
      | Some d \<Rightarrow>
          (case askstring ans of
             None \<Rightarrow> Inr s
           | Some txt \<Rightarrow>
               if txt = [] then Inr s
               else (let font_size = (case askinteger ans of None \<Rightarrow> 12 | Some n \<Rightarrow> n)
                     in case canvas_to_pdf s x y of
                          Inl e \<Rightarrow> Inl e
                        | Inr p \<Rightarrow>
                            (let width = real (length txt) * real font_size * 0.6 + 20;
                                 height = real font_size + 10
                             in Inr (s\<lparr>current_pdf :=
                                         Some (add_annot (current_page s) d 2
                                                 \<lparr>x0 = fst p, y0 = snd p,
                                                    x1 = fst p + width, y1 = snd p + height\<rparr> []),
                                       modified := True\<rparr>)))))"

text \<open>Selection (lines 1020 to 1080): the first annotation of the page that matches.\<close>

definition select_annotation_at :: "editor \<Rightarrow> real \<Rightarrow> real \<Rightarrow> error + editor" where
  "select_annotation_at s x y =
     (case current_pdf s of
        None \<Rightarrow> Inr s
      | Some d \<Rightarrow>
          (case canvas_to_pdf s x y of
             Inl e \<Rightarrow> Inl e
           | Inr p \<Rightarrow>
               (case find (\<lambda>a. contains (annot_rect a) p) (annots d (current_page s)) of
                  Some a \<Rightarrow> Inr (s\<lparr>selected_annot_xref := Some (xref a)\<rparr>)
                | None \<Rightarrow> Inr (s\<lparr>selected_annot_xref := None\<rparr>))))"

definition check_click_on_selected :: "editor \<Rightarrow> real \<Rightarrow> real \<Rightarrow> error + bool" where
  "check_click_on_selected s x y =
     (case current_pdf s of
        None \<Rightarrow> Inr False
      | Some d \<Rightarrow>
          (case selected_annot_xref s of
             None \<Rightarrow> Inr False
           | Some xr \<Rightarrow>
               (case canvas_to_pdf s x y of
                  Inl e \<Rightarrow> Inl e
                | Inr p \<Rightarrow>
                    (case find (\<lambda>a. xref a = xr) (annots d (current_page s)) of
                       Some a \<Rightarrow> Inr (contains (annot_rect a) p)
                     | None \<Rightarrow> Inr False))))"

definition start_move_annotation :: "editor \<Rightarrow> editor" where
  "start_move_annotation s =
     (case current_pdf s of
        None \<Rightarrow> s
      | Some d \<Rightarrow>
          (case selected_annot_xref s of
             None \<Rightarrow> s
           | Some xr \<Rightarrow>
               (case find (\<lambda>a. xref a = xr) (annots d (current_page s)) of
                  Some a \<Rightarrow> s\<lparr>moving_annot_rect := Some (annot_rect a)\<rparr>
                | None \<Rightarrow> s)))"

text \<open>\<^verbatim>\<open>on_mouse_press\<close> (lines 758 to 779).\<close>

definition on_mouse_press :: "answers \<Rightarrow> editor \<Rightarrow> point \<Rightarrow> error + editor" where
  "on_mouse_press ans s ev =
     (case current_pdf s of
        None \<Rightarrow> Inr s
      | Some d \<Rightarrow>
          (let s1 = s\<lparr>drag_start := Some (canvasx s (fst ev), canvasy s (snd ev))\<rparr>
           in if current_tool s1 = Select then
                (if selected_annot_xref s1 \<noteq> None then
                   (case check_click_on_selected s1 (fst ev) (snd ev) of
                      Inl e \<Rightarrow> Inl e
                    | Inr True \<Rightarrow> Inr (start_move_annotation (s1\<lparr>is_moving := True\<rparr>))
                    | Inr False \<Rightarrow> select_annotation_at s1 (fst ev) (snd ev))
                 else select_annotation_at s1 (fst ev) (snd ev))
              else if current_tool s1 = Note then add_sticky_note ans s1 (fst ev) (snd ev)
              else if current_tool s1 = TextBox then add_text_box ans s1 (fst ev) (snd ev)
              else Inr s1))"

text \<open>
  \<^verbatim>\<open>finish_move_annotation\<close> (lines 1109 to 1168). The loop over the page's
  annotations moves the first one with the selected xref and stops. What
  \<^verbatim>\<open>annot.update()\<close> recomputes of an annotation is not modelled.
\<close>

definition translate :: "real \<Rightarrow> real \<Rightarrow> point \<Rightarrow> point" where
  "translate dx dy p = (fst p + dx, snd p + dy)"

definition move_annot :: "real \<Rightarrow> real \<Rightarrow> annot \<Rightarrow> annot" where
  "move_annot dx dy a =
     (let new_rect = \<lparr>x0 = x0 (annot_rect a) + dx, y0 = y0 (annot_rect a) + dy,
                      x1 = x1 (annot_rect a) + dx, y1 = y1 (annot_rect a) + dy\<rparr>
      in if annot_type a = 3 then
           (if vertices a \<noteq> [] \<and> length (vertices a) \<ge> 2
            then a\<lparr>vertices := [translate dx dy (vertices a ! 0), translate dx dy (vertices a ! 1)]\<rparr>
            else a)
         else a\<lparr>annot_rect := new_rect\<rparr>)"

fun move_first :: "nat \<Rightarrow> real \<Rightarrow> real \<Rightarrow> annot list \<Rightarrow> annot list \<times> bool" where
  "move_first xr dx dy [] = ([], False)"
| "move_first xr dx dy (a # rest) =
     (if xref a = xr then (move_annot dx dy a # rest, True)
      else (a # fst (move_first xr dx dy rest), snd (move_first xr dx dy rest)))"

definition finish_move_annotation :: "editor \<Rightarrow> real \<Rightarrow> real \<Rightarrow> error + editor" where
  "finish_move_annotation s x y =
     (let s1 = s\<lparr>move_preview := False\<rparr>
      in case moving_annot_rect s1 of
           None \<Rightarrow> Inr s1
         | Some r \<Rightarrow>
             (case selected_annot_xref s1 of
                None \<Rightarrow> Inr s1
              | Some xr \<Rightarrow>
                  (let zoom = zoom_level s1 * 1.5
                   in case drag_start s1 of
                        None \<Rightarrow> Inl TypeError
                      | Some start \<Rightarrow>
                          if zoom = 0 then Inl ZeroDivisionError
                          else
                            (let dx = (x - fst start) / zoom;
                                 dy = (y - snd start) / zoom
                             in if abs dx < 1 \<and> abs dy < 1
                                then Inr (s1\<lparr>moving_annot_rect := None\<rparr>)
                                else
                                  (case current_pdf s1 of
                                     None \<Rightarrow> Inl TypeError
                                   | Some d \<Rightarrow>
                                       (let moved = move_first xr dx dy
                                                      (annots d (current_page s1))
                                        in Inr (s1\<lparr>current_pdf :=
                                                    Some (d\<lparr>annots := (annots d)
                                                             (current_page s1 := fst moved)\<rparr>),
                                                  modified := (modified s1 \<or> snd moved),
                                                  moving_annot_rect := None\<rparr>)))))))"

text \<open>\<^verbatim>\<open>on_mouse_release\<close> (lines 795 to 836).\<close>

definition on_mouse_release :: "answers \<Rightarrow> editor \<Rightarrow> point \<Rightarrow> error + editor" where
  "on_mouse_release ans s ev =
     (case current_pdf s of
        None \<Rightarrow> Inr s
      | Some d \<Rightarrow>
          (case drag_start s of
             None \<Rightarrow> Inr s
           | Some start \<Rightarrow>
               (let x = canvasx s (fst ev);
                    y = canvasy s (snd ev);
                    min_size = 5
                in if current_tool s = Select \<and> is_moving s then
                     (case finish_move_annotation s x y of
                        Inl e \<Rightarrow> Inl e
                      | Inr s1 \<Rightarrow> Inr (s1\<lparr>is_moving := False, drag_start := None\<rparr>))
                   else if abs (x - fst start) < min_size \<and> abs (y - snd start) < min_size
                           \<and> current_tool s \<notin> {Select, Note, TextBox}
                   then Inr (s\<lparr>temp_shape := False, drag_start := None\<rparr>)
                   else
                     (case (if current_tool s = Line then draw_line_annot s start (x, y)
                            else if current_tool s = Circle then draw_circle_annot s start (x, y)
                            else if current_tool s = Rect then draw_rect_annot s start (x, y)
                            else if current_tool s = Highlight then add_highlight s start (x, y)
                            else if current_tool s = Redact then add_redaction ans s start (x, y)
                            else Inr s) of
                        Inl e \<Rightarrow> Inl e
                      | Inr s1 \<Rightarrow> Inr (s1\<lparr>temp_shape := False, drag_start := None\<rparr>)))))"

text \<open>
  \<^verbatim>\<open>save_pdf\<close> (lines 1236 to 1255). The path is the file dialog's answer (empty
  when the dialog is cancelled); \<open>failure\<close> is the exception of the library's
  \<^verbatim>\<open>save\<close>, if it raises one.
\<close>

definition save_pdf :: "path \<Rightarrow> error option \<Rightarrow> editor \<Rightarrow> editor" where
  "save_pdf save_path failure s =
     (case current_pdf s of
        None \<Rightarrow> s\<lparr>notices := notices s @ [ShowWarning]\<rparr>
      | Some d \<Rightarrow>
          if save_path \<noteq> [] then
            (case failure of
               None \<Rightarrow> s\<lparr>saved := saved s @ [(save_path, d)],
                          modified := False,
                          notices := notices s @ [ShowInfo save_path]\<rparr>
             | Some e \<Rightarrow> s\<lparr>notices := notices s @ [ShowError e]\<rparr>)
          else s)"

text \<open>
  The editor as \<^verbatim>\<open>__init__\<close> leaves it (lines 25 to 54), and a document without
  annotations.
\<close>

definition init_editor :: editor where
  "init_editor =
     \<lparr>current_pdf = None, current_page = 0, zoom_level = 1.0, scroll = (0, 0),
      current_tool = Select, drag_start = None, temp_shape = False,
      selected_annot_xref = None, is_moving = False, moving_annot_rect = None,
      move_preview = False, modified = False, notices = [], saved = []\<rparr>"

definition empty_document :: document where
  "empty_document = \<lparr>annots = (\<lambda>pg. []), next_xref = 1, redacted = []\<rparr>"






section \<open>Properties\<close>

subsection \<open>Frames stay rectangular\<close>

lemma fold_max_Max: "fold max ns (a::nat) = Max (insert a (set ns))"
proof (induction ns arbitrary: a)
  case Nil
  then show ?case by simp
next
  case (Cons n ns)
  have "Max (insert (max n a) (set ns)) = Max (insert a (insert n (set ns)))"
    by (metis List.finite_set Max.set_eq_fold Max_insert empty_not_insert finite.insertI fold_simps(2) insert_commute list.simps(15) max.commute)
  with Cons show ?case by simp
qed

lemma list_max_ge: "n \<in> set ns \<Longrightarrow> n \<le> list_max ns"
  by (simp add: list_max_def fold_max_Max)

lemma list_max_Max: "ns \<noteq> [] \<Longrightarrow> list_max ns = Max (set ns)"
  by (simp add: list_max_def fold_max_Max)

lemma list_max_const: "ns \<noteq> [] \<Longrightarrow> \<forall>n\<in>set ns. n = k \<Longrightarrow> list_max ns = k"
  using list_max_Max by force

lemma frame_content_length:
  "r \<in> set (frame_content data) \<Longrightarrow> length r = list_max (map length data)"
  using list_max_ge [of _ "map length data"]
  by (auto simp: frame_content_def Let_def)

lemma frame_content_same:
  assumes "\<forall>r\<in>set data. length r = k"
  shows "frame_content data = data"
proof (cases "data = []")
  case True
  then show ?thesis by (simp add: frame_content_def)
next
  case False
  with assms have "list_max (map length data) = k"
    by (intro list_max_const) auto
  with assms show ?thesis
    by (simp add: frame_content_def map_idI)
qed

lemma DataFrame_rectangular: "DataFrame data cols = Inr df \<Longrightarrow> rectangular df"
  by (auto simp: DataFrame_def rectangular_def frame_content_length split: if_splits)

lemma keep_cells_length:
  "length r = length cols \<Longrightarrow>
   length (keep_cells ls cols r) = length (filter (\<lambda>c. c \<notin> set ls) cols)"
  unfolding keep_cells_def
  by (induction r cols rule: list_induct2) auto

lemma setitem_rectangular: "rectangular df \<Longrightarrow> rectangular (setitem df k v)"
  by (auto simp: setitem_def rectangular_def)

lemma drop_cols_rectangular: "rectangular df \<Longrightarrow> rectangular (drop_cols ls df)"
  by (auto simp: drop_cols_def rectangular_def keep_cells_length)

lemma fillna_rectangular: "rectangular df \<Longrightarrow> rectangular (fillna v df)"
  by (auto simp: fillna_def rectangular_def)

lemma table_frame_rectangular:
  "table_frame p t table = Inr (Some df) \<Longrightarrow> rectangular df"
  by (auto simp: table_frame_def Let_def setitem_rectangular DataFrame_rectangular
      split: if_splits sum.splits)

lemma collect_all:
  "collect f xs = Inr ys \<Longrightarrow> (\<And>x zs. x \<in> set xs \<Longrightarrow> f x = Inr zs \<Longrightarrow> \<forall>z\<in>set zs. P z)
   \<Longrightarrow> \<forall>y\<in>set ys. P y"
proof (induction xs arbitrary: ys)
  case Nil
  then show ?case by simp
next
  case (Cons x xs)
  then show ?case
    by (fastforce split: sum.splits)
qed

lemma table_frames_SomeD:
  "table_frames p t table = Inr zs \<Longrightarrow> df \<in> set zs \<Longrightarrow> table_frame p t table = Inr (Some df)"
  by (auto simp: table_frames_def split: sum.splits option.splits)

lemma page_frames_rectangular:
  assumes "page_frames p pg = Inr dfs"
  shows "\<forall>df\<in>set dfs. rectangular df"
proof (rule collect_all [OF assms [unfolded page_frames_def]])
  fix x zs
  assume "(case x of (table_idx, table) \<Rightarrow> table_frames p table_idx table) = Inr zs"
  then show "\<forall>z\<in>set zs. rectangular z"
    by (auto split: prod.splits dest!: table_frames_SomeD simp: table_frame_rectangular)
qed

lemma all_frames_rectangular:
  assumes "all_frames pages = Inr dfs"
  shows "\<forall>df\<in>set dfs. rectangular df"
proof (rule collect_all [OF assms [unfolded all_frames_def]])
  fix x zs
  assume "x \<in> set (enumerate 0 pages)"
    and "(case x of (page_num, pg) \<Rightarrow> page_frames page_num pg) = Inr zs"
  then show "\<forall>z\<in>set zs. rectangular z"
    by (auto split: prod.splits dest: page_frames_rectangular)
qed

subsection \<open>Cells by label\<close>

lemma label_cells_overwrite_same:
  "length r = length cols \<Longrightarrow>
   label_cells key cols (map (\<lambda>(c, x). if c = key then v else x) (zip cols r))
     = replicate (count_list cols key) v"
  unfolding label_cells_def
  by (induction r cols rule: list_induct2) auto

lemma label_cells_overwrite_other:
  "length r = length cols \<Longrightarrow> k \<noteq> key \<Longrightarrow>
   label_cells k cols (map (\<lambda>(c, x). if c = key then v else x) (zip cols r))
     = label_cells k cols r"
  unfolding label_cells_def
  by (induction r cols rule: list_induct2) auto

lemma label_cells_append:
  "length r = length cols \<Longrightarrow>
   label_cells k (cols @ [key]) (r @ [v]) = label_cells k cols r @ (if k = key then [v] else [])"
  unfolding label_cells_def
  by (induction r cols rule: list_induct2) auto

lemma label_cells_absent: "key \<notin> set cols \<Longrightarrow> label_cells key cols r = []"
  unfolding label_cells_def
  by (induction cols arbitrary: r) (auto simp: zip_Cons1 split: list.splits)

lemma count_list_0: "key \<notin> set cols \<Longrightarrow> count_list cols key = 0"
  by (induction cols) auto

lemma keep_cells_overwrite:
  "length r = length cols \<Longrightarrow> key \<in> set ls \<Longrightarrow>
   keep_cells ls cols (map (\<lambda>(c, x). if c = key then v else x) (zip cols r)) = keep_cells ls cols r"
  unfolding keep_cells_def
  by (induction r cols rule: list_induct2) auto

lemma keep_cells_append:
  "length r = length cols \<Longrightarrow> key \<in> set ls \<Longrightarrow>
   keep_cells ls (cols @ [key]) (r @ [v]) = keep_cells ls cols r"
  unfolding keep_cells_def
  by (induction r cols rule: list_induct2) auto

lemma keep_cells_map: "map f (keep_cells ls cols r) = keep_cells ls cols (map f r)"
  unfolding keep_cells_def
  by (induction cols arbitrary: r) (auto simp: zip_Cons1 split: list.splits)

lemma keep_cells_id:
  "length r = length cols \<Longrightarrow> set ls \<inter> set cols = {} \<Longrightarrow> keep_cells ls cols r = r"
  unfolding keep_cells_def
  by (induction r cols rule: list_induct2) auto

subsection \<open>Assignment to a column, seen through the labels\<close>

lemma setitem_columns:
  "columns (setitem df key v) = (if key \<in> set (columns df) then columns df else columns df @ [key])"
  by (simp add: setitem_def)

lemma setitem_label_same:
  assumes "rectangular df"
  shows "map (label_cells key (columns (setitem df key v))) (rows (setitem df key v))
         = map (\<lambda>r. replicate (max 1 (count_list (columns df) key)) v) (rows df)"
proof (cases "key \<in> set (columns df)")
  case True
  then have "count_list (columns df) key \<noteq> 0"
    by (simp add: count_list_0_iff)
  then have "max 1 (count_list (columns df) key) = count_list (columns df) key"
    by simp
  with True assms show ?thesis
    by (simp add: setitem_def rectangular_def label_cells_overwrite_same)
next
  case False
  with assms show ?thesis
    by (simp add: setitem_def rectangular_def label_cells_append label_cells_absent count_list_0)
qed

lemma setitem_label_other:
  assumes "rectangular df" "k \<noteq> key"
  shows "map (label_cells k (columns (setitem df key v))) (rows (setitem df key v))
         = map (label_cells k (columns df)) (rows df)"
  using assms
  by (simp add: setitem_def rectangular_def label_cells_append label_cells_overwrite_other)

lemma setitem_keep:
  assumes "rectangular df" "key \<in> set ls"
  shows "map (keep_cells ls (columns (setitem df key v))) (rows (setitem df key v))
         = map (keep_cells ls (columns df)) (rows df)"
  using assms
  by (simp add: setitem_def rectangular_def keep_cells_append keep_cells_overwrite)

lemma setitem_columns_kept:
  "key \<in> set ls \<Longrightarrow>
   filter (\<lambda>c. c \<notin> set ls) (columns (setitem df key v)) = filter (\<lambda>c. c \<notin> set ls) (columns df)"
  by (simp add: setitem_def)

lemma drop_cols_setitem:
  "rectangular df \<Longrightarrow> key \<in> set ls \<Longrightarrow> drop_cols ls (setitem df key v) = drop_cols ls df"
  by (simp add: drop_cols_def setitem_keep setitem_columns_kept)

subsection \<open>The bookkeeping columns\<close>

lemma getitem_iloc0_hd:
  assumes "key \<in> set (columns df)" "rows df \<noteq> []"
  shows "getitem_iloc0 df key = Inr (as_obj (hd (map (label_cells key (columns df)) (rows df))))"
  using assms
  by (cases "rows df") (auto simp: getitem_iloc0_def)

lemma DataFrame_rows_nonempty:
  "DataFrame data cols = Inr df \<Longrightarrow> data \<noteq> [] \<Longrightarrow> rows df \<noteq> []"
  by (auto simp: DataFrame_def frame_content_def Let_def split: if_splits)

lemma setitem_rows_nonempty: "rows df \<noteq> [] \<Longrightarrow> rows (setitem df key v) \<noteq> []"
  by (simp add: setitem_def)

lemma count_list_setitem_other:
  "k \<noteq> key \<Longrightarrow> count_list (columns (setitem df key v)) k = count_list (columns df) k"
  by (simp add: setitem_def)

lemma meta_frame_getitem:
  fixes vp vt :: cell
  assumes rect: "rectangular df0" and ne: "rows df0 \<noteq> []"
  defines "df \<equiv> setitem (setitem df0 (Str ''_page'') vp) (Str ''_table'') vt"
  shows "getitem_iloc0 df (Str ''_page'')
           = Inr (as_obj (replicate (max 1 (count_list (columns df0) (Str ''_page''))) vp))"
    and "getitem_iloc0 df (Str ''_table'')
           = Inr (as_obj (replicate (max 1 (count_list (columns df0) (Str ''_table''))) vt))"
proof -
  let ?df1 = "setitem df0 (Str ''_page'') vp"
  have rect1: "rectangular ?df1"
    using rect by (rule setitem_rectangular)
  have ne1: "rows ?df1 \<noteq> []"
    using ne by (rule setitem_rows_nonempty)
  have ne2: "rows df \<noteq> []"
    unfolding df_def using ne1 by (rule setitem_rows_nonempty)
  have inP: "Str ''_page'' \<in> set (columns df)" and inT: "Str ''_table'' \<in> set (columns df)"
    by (simp_all add: df_def setitem_columns)
  have "map (label_cells (Str ''_page'') (columns df)) (rows df)
        = map (label_cells (Str ''_page'') (columns ?df1)) (rows ?df1)"
    unfolding df_def by (rule setitem_label_other [OF rect1]) simp
  also have "\<dots> = map (\<lambda>r. replicate (max 1 (count_list (columns df0) (Str ''_page''))) vp) (rows df0)"
    by (rule setitem_label_same [OF rect])
  finally show "getitem_iloc0 df (Str ''_page'')
           = Inr (as_obj (replicate (max 1 (count_list (columns df0) (Str ''_page''))) vp))"
    using ne by (simp add: getitem_iloc0_hd [OF inP ne2] hd_map)
  have "map (label_cells (Str ''_table'') (columns df)) (rows df)
        = map (\<lambda>r. replicate (max 1 (count_list (columns ?df1) (Str ''_table''))) vt) (rows ?df1)"
    unfolding df_def by (rule setitem_label_same [OF rect1])
  then show "getitem_iloc0 df (Str ''_table'')
           = Inr (as_obj (replicate (max 1 (count_list (columns df0) (Str ''_table''))) vt))"
    using ne1 by (simp add: getitem_iloc0_hd [OF inT ne2] hd_map count_list_setitem_other)
qed

lemma as_obj_single: "n \<le> 1 \<Longrightarrow> as_obj (replicate (max 1 n) v) = Scalar v"
  by (cases n) (auto simp: as_obj_def)

lemma sheet_title_bounds: "sheet_title a b \<noteq> [] \<and> length (sheet_title a b) \<le> 31"
  by (simp add: sheet_title_def)

lemma table_frame_SomeD:
  assumes "table_frame p t table = Inr (Some df)"
  obtains df0 where "table \<noteq> []" "table_data table \<noteq> []"
    "DataFrame (map (map of_raw) (table_data table)) (table_header table) = Inr df0"
    "df = setitem (setitem df0 (Str ''_page'') (Num (p + 1))) (Str ''_table'') (Num (t + 1))"
  using assms
  by (auto simp: table_frame_def Let_def split: if_splits sum.splits)

lemma DataFrame_columns: "DataFrame data cols = Inr df \<Longrightarrow> columns df = cols"
  by (auto simp: DataFrame_def split: if_splits)

lemma separate_sheet_of_table_frame:
  assumes "table_frame p t table = Inr (Some df)"
  shows "separate_sheet sr df =
           Inr [to_excel (normalized df)
                  (sheet_title
                     (py_str sr (as_obj (replicate (max 1 (count_list (table_header table) (Str ''_page''))) (Num (p + 1)))))
                     (py_str sr (as_obj (replicate (max 1 (count_list (table_header table) (Str ''_table''))) (Num (t + 1))))))
                  True]"
proof -
  from assms obtain df0 where ne: "table_data table \<noteq> []"
    and df0: "DataFrame (map (map of_raw) (table_data table)) (table_header table) = Inr df0"
    and df: "df = setitem (setitem df0 (Str ''_page'') (Num (p + 1))) (Str ''_table'') (Num (t + 1))"
    by (rule table_frame_SomeD)
  have rect: "rectangular df0"
    using df0 by (rule DataFrame_rectangular)
  have rows: "rows df0 \<noteq> []"
    using df0 ne by (auto dest: DataFrame_rows_nonempty)
  have cols: "columns df0 = table_header table"
    using df0 by (rule DataFrame_columns)
  show ?thesis
    unfolding separate_sheet_def df
    by (simp add: meta_frame_getitem [OF rect rows] cols)
qed

subsection \<open>Loops\<close>

lemma collect_origin:
  assumes "collect f xs = Inr ys" "y \<in> set ys"
  shows "\<exists>x zs. x \<in> set xs \<and> f x = Inr zs \<and> y \<in> set zs"
proof -
  have "\<forall>y\<in>set ys. \<exists>x zs. x \<in> set xs \<and> f x = Inr zs \<and> y \<in> set zs"
    by (rule collect_all [OF assms(1)]) blast
  with assms(2) show ?thesis by blast
qed

lemma collect_singletons:
  assumes "\<forall>x\<in>set xs. \<exists>y. f x = Inr [y]"
  shows "\<exists>ys. collect f xs = Inr ys \<and> length ys = length xs
            \<and> (\<forall>i<length xs. f (xs ! i) = Inr [ys ! i])"
  using assms
proof (induction xs)
  case Nil
  then show ?case by simp
next
  case (Cons x xs)
  then obtain y where y: "f x = Inr [y]" by auto
  from Cons obtain ys where ys: "collect f xs = Inr ys" "length ys = length xs"
    "\<forall>i<length xs. f (xs ! i) = Inr [ys ! i]" by auto
  have "\<forall>i<length (x # xs). f ((x # xs) ! i) = Inr [(y # ys) ! i]"
    using y ys(3) by (auto simp: nth_Cons split: nat.splits)
  with y ys show ?case by auto
qed

lemma page_frames_origin:
  assumes "page_frames p pg = Inr zs" "df \<in> set zs"
  shows "\<exists>t table. table_frame p t table = Inr (Some df)"
proof -
  from collect_origin [OF assms(1) [unfolded page_frames_def] assms(2)]
  obtain t table ys where "table_frames p t table = Inr ys" "df \<in> set ys"
    by (auto split: prod.splits)
  then have "table_frame p t table = Inr (Some df)"
    by (rule table_frames_SomeD)
  then show ?thesis by blast
qed

lemma all_frames_origin:
  assumes "all_frames pages = Inr dfs" "df \<in> set dfs"
  shows "\<exists>p t table. table_frame p t table = Inr (Some df)"
proof -
  from collect_origin [OF assms(1) [unfolded all_frames_def] assms(2)]
  obtain p pg zs where zs: "page_frames p pg = Inr zs" "df \<in> set zs"
    by (auto split: prod.splits)
  then show ?thesis
    using page_frames_origin by blast
qed

subsection \<open>The merged sheet\<close>

lemma table_block_lengths:
  assumes "rectangular df" "r \<in> set (table_block df)"
  shows "length r = length (columns (drop_cols meta_labels df))"
proof -
  have "rectangular (drop_cols meta_labels df)"
    using assms(1) by (rule drop_cols_rectangular)
  with assms(2) show ?thesis
    by (auto simp: table_block_def Let_def rectangular_def)
qed

lemma table_block_nonempty: "table_block df \<noteq> []"
  by (simp add: table_block_def Let_def)

lemma table_block_has_width:
  "\<exists>r\<in>set (table_block df). length r = length (columns (drop_cols meta_labels df))"
  by (simp add: table_block_def Let_def)

lemma in_merge_rows:
  "r \<in> set (merge_rows all_tables) \<longleftrightarrow> (\<exists>df\<in>set all_tables. r \<in> set (table_block df))"
  by (simp add: merge_rows_def)

lemma merge_rows_widths:
  assumes "\<forall>df\<in>set all_tables. rectangular df"
  shows "length ` set (merge_rows all_tables)
         = (\<lambda>df. length (columns (drop_cols meta_labels df))) ` set all_tables"
proof (intro set_eqI iffI)
  fix n assume "n \<in> length ` set (merge_rows all_tables)"
  then obtain r where r: "r \<in> set (merge_rows all_tables)" "n = length r"
    by blast
  then obtain df where df: "df \<in> set all_tables" "r \<in> set (table_block df)"
    unfolding in_merge_rows by blast
  with assms have "length r = length (columns (drop_cols meta_labels df))"
    by (simp add: table_block_lengths)
  with r df show "n \<in> (\<lambda>df. length (columns (drop_cols meta_labels df))) ` set all_tables"
    by blast
next
  fix n assume "n \<in> (\<lambda>df. length (columns (drop_cols meta_labels df))) ` set all_tables"
  then obtain df where df: "df \<in> set all_tables" "n = length (columns (drop_cols meta_labels df))"
    by blast
  from table_block_has_width [of df] obtain r where
    r: "r \<in> set (table_block df)" "length r = length (columns (drop_cols meta_labels df))"
    by blast
  with df have "r \<in> set (merge_rows all_tables)"
    unfolding in_merge_rows by blast
  with r df show "n \<in> length ` set (merge_rows all_tables)"
    by (metis imageI)
qed

lemma max_cols_merge_rows:
  assumes "all_tables \<noteq> []" "\<forall>df\<in>set all_tables. rectangular df"
  shows "max_cols (merge_rows all_tables)
         = Max ((\<lambda>df. length (columns (drop_cols meta_labels df))) ` set all_tables)"
proof -
  have ne: "merge_rows all_tables \<noteq> []"
    using assms(1) table_block_nonempty by (cases all_tables) (auto simp: merge_rows_def)
  then have "max_cols (merge_rows all_tables) = Max (length ` set (merge_rows all_tables))"
    by (simp add: max_cols_def list_max_Max)
  then show ?thesis
    by (simp add: merge_rows_widths [OF assms(2)])
qed

lemma pad_row_append: "pad_row m r = r @ replicate (m - length r) (Str '''')"
proof (cases "length r < m")
  case True
  then show ?thesis unfolding pad_row_def by simp
next
  case False
  then have "m - length r = 0" by simp
  with False show ?thesis unfolding pad_row_def by simp
qed

lemma length_pad_row: "length r \<le> m \<Longrightarrow> length (pad_row m r) = m"
  by (simp add: pad_row_def)

lemma max_cols_ge: "r \<in> set all_rows \<Longrightarrow> length r \<le> max_cols all_rows"
  by (auto simp: max_cols_def intro: list_max_ge)

lemma padded_same_length:
  "r \<in> set (map (pad_row (max_cols all_rows)) all_rows) \<Longrightarrow> length r = max_cols all_rows"
  by (auto simp: length_pad_row max_cols_ge)

lemma merged_sheet_body:
  "body (merged_sheet all_tables)
   = map (\<lambda>r. map (fill_cell (Str '''')) r
                @ replicate (max_cols (merge_rows all_tables) - length r) (Str ''''))
         (merge_rows all_tables)"
proof -
  let ?padded = "map (pad_row (max_cols (merge_rows all_tables))) (merge_rows all_tables)"
  have "frame_content ?padded = ?padded"
    by (rule frame_content_same [where k = "max_cols (merge_rows all_tables)"])
      (use padded_same_length in blast)
  then show ?thesis
    by (simp add: merged_sheet_def Let_def to_excel_def fillna_def DataFrame_plain_def
        pad_row_append fill_cell_def)
qed

lemma map_concat_map: "map f (concat (map g xs)) = concat (map (\<lambda>x. map f (g x)) xs)"
  by (induction xs) auto

subsection \<open>Normalized tables\<close>

lemma fillna_no_Null: "r \<in> set (rows (fillna (Str s) df)) \<Longrightarrow> Null \<notin> set r"
  by (auto simp: fillna_def fill_cell_def split: if_splits)

lemma normalized_no_Null: "r \<in> set (rows (normalized df)) \<Longrightarrow> Null \<notin> set r"
  unfolding normalized_def by (rule fillna_no_Null)

lemma normalized_rectangular: "rectangular df \<Longrightarrow> rectangular (normalized df)"
  unfolding normalized_def by (intro fillna_rectangular drop_cols_rectangular)

lemma merged_sheet_no_Null: "r \<in> set (body (merged_sheet all_tables)) \<Longrightarrow> Null \<notin> set r"
  by (auto simp: merged_sheet_def Let_def to_excel_def dest: fillna_no_Null)

lemma normalized_meta_frame:
  assumes "rectangular df0"
  shows "normalized (setitem (setitem df0 (Str ''_page'') vp) (Str ''_table'') vt)
         = fillna (Str '''') (drop_cols meta_labels df0)"
proof -
  have "rectangular (setitem df0 (Str ''_page'') vp)"
    using assms by (rule setitem_rectangular)
  then have "drop_cols meta_labels (setitem (setitem df0 (Str ''_page'') vp) (Str ''_table'') vt)
             = drop_cols meta_labels (setitem df0 (Str ''_page'') vp)"
    by (rule drop_cols_setitem) (simp add: meta_labels_def)
  also have "\<dots> = drop_cols meta_labels df0"
    using assms by (rule drop_cols_setitem) (simp add: meta_labels_def)
  finally show ?thesis
    by (simp add: normalized_def)
qed

subsection \<open>The text dump and the batch\<close>

lemma zip_upt_nth: "zip [0..<length xs] xs = map (\<lambda>i. (i, xs ! i)) [0..<length xs]"
  by (rule nth_equalityI) auto

lemma concat_map_if: "concat (map (\<lambda>i. if P i then [f i] else []) ns) = map f (filter P ns)"
  by (induction ns) auto

lemma text_records_index:
  "text_records pages
   = map (\<lambda>i. (i + 1, the (page_text (pages ! i))))
       (filter (\<lambda>i. page_text (pages ! i) \<noteq> None \<and> page_text (pages ! i) \<noteq> Some [])
          [0..<length pages])"
proof -
  have eq: "(case page_text (pages ! i) of
               None \<Rightarrow> []
             | Some t \<Rightarrow> if t \<noteq> [] then [(i + 1, t)] else [])
            = (if page_text (pages ! i) \<noteq> None \<and> page_text (pages ! i) \<noteq> Some []
               then [(i + 1, the (page_text (pages ! i)))] else [])" for i
    by (cases "page_text (pages ! i)") simp_all
  have "text_records pages
        = concat (map (\<lambda>i. case page_text (pages ! i) of
                               None \<Rightarrow> []
                             | Some t \<Rightarrow> if t \<noteq> [] then [(i + 1, t)] else [])
                      [0..<length pages])"
    unfolding text_records_def enumerate_eq_zip
    by (simp add: zip_upt_nth comp_def)
  then show ?thesis
    by (simp only: eq concat_map_if)
qed

lemma convert_single_file_text:
  assumes "fs pdf_path = Some (Pdf pages)" and "all_frames pages = Inr []"
  shows "convert_single_file ev fs pdf_path excel_path merge_tables
         = (if text_records pages = [] then Inl NoContent
            else if writable ev excel_path
            then Inr (fs(excel_path \<mapsto>
                   Xlsx [\<lparr>sheet_name = ''Text Content'',
                           header = Some [Str ''Page'', Str ''Content''],
                           body = map (\<lambda>(n, t). [Num n, Str t]) (text_records pages)\<rparr>]))
            else Inl WriteError)"
  using assms
  by (simp add: convert_single_file_def pdfplumber_open_def
      text_dump_def write_workbook_def to_excel_def text_frame_def)

lemma convert_single_file_tables:
  assumes "fs pdf_path = Some (Pdf pages)" and "all_frames pages = Inr all_tables"
    and "all_tables \<noteq> []"
  shows "convert_single_file ev fs pdf_path excel_path merge_tables
         = (if \<not> writable ev excel_path then Inl WriteError
            else if merge_tables then Inr (fs(excel_path \<mapsto> Xlsx [merged_sheet all_tables]))
            else (case separate_sheets (series_str ev) all_tables of
                    Inl e \<Rightarrow> Inl e
                  | Inr sheets \<Rightarrow> Inr (fs(excel_path \<mapsto> Xlsx sheets))))"
  using assms
  by (simp add: convert_single_file_def pdfplumber_open_def write_workbook_def split: sum.splits)

lemma files_attempt: "files (attempt ev mt st job) = job_files ev mt (files st) job"
  by (simp add: attempt_def job_files_def split: sum.splits)

lemma messages_attempt:
  "messages (attempt ev mt st job) = messages st @ job_messages ev mt (files st) job"
  by (simp add: attempt_def job_messages_def split: sum.splits)

lemma foldl_attempt_files:
  "files a = files b \<Longrightarrow>
   files (foldl (attempt ev mt) a jobs) = files (foldl (attempt ev mt) b jobs)"
proof (induction jobs arbitrary: a b)
  case Nil
  then show ?case by simp
next
  case (Cons job jobs)
  have "files (attempt ev mt a job) = files (attempt ev mt b job)"
    using Cons.prems by (simp add: files_attempt)
  then have "files (foldl (attempt ev mt) (attempt ev mt a job) jobs)
             = files (foldl (attempt ev mt) (attempt ev mt b job) jobs)"
    by (rule Cons.IH)
  then show ?case
    by simp
qed

lemma foldl_attempt_messages:
  "files a = files b \<Longrightarrow>
   \<exists>ms. messages (foldl (attempt ev mt) a jobs) = messages a @ ms
      \<and> messages (foldl (attempt ev mt) b jobs) = messages b @ ms"
proof (induction jobs arbitrary: a b)
  case Nil
  then show ?case by simp
next
  case (Cons job jobs)
  let ?a = "attempt ev mt a job" and ?b = "attempt ev mt b job"
  have same: "files ?a = files ?b"
    using Cons.prems by (simp add: files_attempt)
  from Cons.IH [OF same] obtain ms where
    ms: "messages (foldl (attempt ev mt) ?a jobs) = messages ?a @ ms"
        "messages (foldl (attempt ev mt) ?b jobs) = messages ?b @ ms"
    by blast
  have "messages (foldl (attempt ev mt) a (job # jobs))
          = messages a @ (job_messages ev mt (files a) job @ ms)"
    and "messages (foldl (attempt ev mt) b (job # jobs))
          = messages b @ (job_messages ev mt (files a) job @ ms)"
    using ms Cons.prems by (simp_all add: messages_attempt)
  then show ?case by blast
qed

subsection \<open>Evaluation on concrete inputs\<close>

lemmas frame_eval = all_frames_def page_frames_def table_frames_def table_frame_def
  table_header_def table_data_def DataFrame_def list_max_def frame_content_def setitem_def
  of_raw_def enumerate_eq_zip

lemmas sheet_eval = separate_sheets_def separate_sheet_def getitem_iloc0_def label_cells_def
  as_obj_def normalized_def fillna_def fill_cell_def drop_cols_def keep_cells_def
  meta_labels_def to_excel_def sheet_title_def str_nat.simps digit_char_def

lemmas merge_eval = merged_sheet_def merge_rows_def table_block_def max_cols_def pad_row_def
  DataFrame_plain_def frame_content_def list_max_def fillna_def fill_cell_def drop_cols_def
  keep_cells_def meta_labels_def to_excel_def rectangular_def

lemmas batch_eval = convert_files_def attempt_def convert_single_file_def pdfplumber_open_def
  text_dump_def write_workbook_def text_records_def text_frame_def to_excel_def

subsection \<open>The editor\<close>




lemmas editor_eval = init_editor_def empty_document_def on_mouse_release_def on_mouse_press_def
  finish_move_annotation_def draw_shape_def draw_line_annot_def draw_circle_annot_def
  draw_rect_annot_def add_highlight_def add_redaction_def add_sticky_note_def add_text_box_def
  canvas_to_pdf_point_def canvas_to_pdf_def pdf_to_canvas_point_def canvasx_def canvasy_def
  add_annot_def apply_redactions_def normalize_def rect_of_def move_annot_def translate_def
  save_pdf_def

section \<open>The claims\<close>

text \<open>
  C3. An empty table is skipped. Row 0, when it has cells, is the header as it stands,
  null cells included; when row 0 has no cell the header is \<open>Col0 \<dots> ColN-1\<close> with
  \<open>N\<close> the length of row 1, or 1 without a row 1. The rows after row 0 are the data,
  and a table without data rows gives no frame.
\<close>

theorem header_and_data_selection:
  "table_frame page_num table_idx [] = Inr None
   \<and> (h \<noteq> [] \<longrightarrow> table_header (h # rest) = map of_raw h)
   \<and> table_header ([] # r # rest) = map (\<lambda>i. Str (''Col'' @ str_nat i)) [0..<length r]
   \<and> table_header [[]] = [Str ''Col0'']
   \<and> table_data (h # rest) = rest
   \<and> table_frame page_num table_idx [h] = Inr None
   \<and> table_frame page_num table_idx (h # r # rest) =
       (case DataFrame (map (map of_raw) (r # rest)) (table_header (h # r # rest)) of
          Inl e \<Rightarrow> Inl e
        | Inr df \<Rightarrow> Inr (Some (setitem (setitem df (Str ''_page'') (Num (page_num + 1)))
                                       (Str ''_table'') (Num (table_idx + 1)))))"
  by (simp add: table_frame_def table_header_def table_data_def str_nat.simps digit_char_def)

theorem header_and_data_selection_witness:
  "[Some ''A'', None] \<noteq> []
   \<and> table_header [[Some ''A'', None]] = [Str ''A'', Null]
   \<and> table_header ([] # [Some ''1'', Some ''2''] # []) = [Str ''Col0'', Str ''Col1'']
   \<and> table_frame 0 0 [[Some ''A'', None]] = Inr None
   \<and> table_frame 0 0 [[Some ''A'', None], [Some ''1'', Some ''2'']] =
        Inr (Some \<lparr>columns = [Str ''A'', Null, Str ''_page'', Str ''_table''],
                   rows = [[Str ''1'', Str ''2'', Num 1, Num 1]]\<rparr>)"
  using header_and_data_selection [where page_num = 0 and table_idx = 0
      and h = "[Some ''A'', None]" and r = "[Some ''1'', Some ''2'']" and rest = "[]"]
  by (simp add: of_raw_def str_nat.simps digit_char_def DataFrame_def list_max_def
      frame_content_def setitem_def table_header_def table_data_def table_frame_def)

text \<open>
  C5. In separate mode every frame of a document gives one sheet, in order, holding the
  normalized table; its name is \<^verbatim>\<open>Page{page}_Table{table}\<close> cut to 31 characters,
  which for page and table numbers from 1 is never empty and never longer than 31.
  (The numbers are read back from the bookkeeping columns: they are the scalars the
  extraction stored unless the header has two cells \<^verbatim>\<open>_page\<close> or two cells
  \<^verbatim>\<open>_table\<close>.) These sheets are the workbook the conversion writes.
\<close>

theorem separate_mode_sheet_names:
  "(all_frames pages = Inr all_tables \<longrightarrow>
      (\<exists>sheets. separate_sheets sr all_tables = Inr sheets
         \<and> length sheets = length all_tables
         \<and> (\<forall>i<length all_tables.
               header (sheets ! i) = Some (columns (normalized (all_tables ! i)))
             \<and> body (sheets ! i) = rows (normalized (all_tables ! i))
             \<and> sheet_name (sheets ! i) \<noteq> []
             \<and> length (sheet_name (sheets ! i)) \<le> 31)))
   \<and> (table_frame page_num table_idx table = Inr (Some df)
        \<and> count_list (table_header table) (Str ''_page'') \<le> 1
        \<and> count_list (table_header table) (Str ''_table'') \<le> 1 \<longrightarrow>
        separate_sheet sr df =
          Inr [to_excel (normalized df)
                 (take 31 (''Page'' @ str_nat (page_num + 1) @ ''_Table'' @ str_nat (table_idx + 1)))
                 True])
   \<and> (1 \<le> p \<and> 1 \<le> t \<longrightarrow>
        sheet_title (str_nat p) (str_nat t) = take 31 (''Page'' @ str_nat p @ ''_Table'' @ str_nat t)
      \<and> sheet_title (str_nat p) (str_nat t) \<noteq> []
      \<and> length (sheet_title (str_nat p) (str_nat t)) \<le> 31)
   \<and> (fs pdf_path = Some (Pdf pages) \<and> all_frames pages = Inr all_tables \<and> all_tables \<noteq> []
        \<and> writable ev excel_path \<and> separate_sheets (series_str ev) all_tables = Inr written \<longrightarrow>
        convert_single_file ev fs pdf_path excel_path False
          = Inr (fs(excel_path \<mapsto> Xlsx written)))"
proof (intro conjI impI)
  assume "fs pdf_path = Some (Pdf pages) \<and> all_frames pages = Inr all_tables \<and> all_tables \<noteq> []
        \<and> writable ev excel_path \<and> separate_sheets (series_str ev) all_tables = Inr written"
  then show "convert_single_file ev fs pdf_path excel_path False
          = Inr (fs(excel_path \<mapsto> Xlsx written))"
    by (simp add: convert_single_file_tables)
next
  assume frames: "all_frames pages = Inr all_tables"
  have one: "\<forall>df\<in>set all_tables. \<exists>s. separate_sheet sr df = Inr [s]"
  proof
    fix df assume "df \<in> set all_tables"
    with frames obtain p t table where "table_frame p t table = Inr (Some df)"
      using all_frames_origin by blast
    then show "\<exists>s. separate_sheet sr df = Inr [s]"
      by (simp add: separate_sheet_of_table_frame)
  qed
  from collect_singletons [OF one] obtain sheets where
    sheets: "collect (separate_sheet sr) all_tables = Inr sheets" "length sheets = length all_tables"
      "\<forall>i<length all_tables. separate_sheet sr (all_tables ! i) = Inr [sheets ! i]"
    by blast
  have "\<forall>i<length all_tables.
               header (sheets ! i) = Some (columns (normalized (all_tables ! i)))
             \<and> body (sheets ! i) = rows (normalized (all_tables ! i))
             \<and> sheet_name (sheets ! i) \<noteq> []
             \<and> length (sheet_name (sheets ! i)) \<le> 31"
  proof (intro allI impI)
    fix i assume i: "i < length all_tables"
    then have "all_tables ! i \<in> set all_tables" by simp
    with frames obtain p t table where tf: "table_frame p t table = Inr (Some (all_tables ! i))"
      using all_frames_origin by blast
    from sheets(3) i have "separate_sheet sr (all_tables ! i) = Inr [sheets ! i]" by simp
    then have "sheets ! i = to_excel (normalized (all_tables ! i))
                  (sheet_title
                     (py_str sr (as_obj (replicate (max 1 (count_list (table_header table) (Str ''_page''))) (Num (p + 1)))))
                     (py_str sr (as_obj (replicate (max 1 (count_list (table_header table) (Str ''_table''))) (Num (t + 1))))))
                  True"
      unfolding separate_sheet_of_table_frame [OF tf] by simp
    then show "header (sheets ! i) = Some (columns (normalized (all_tables ! i)))
             \<and> body (sheets ! i) = rows (normalized (all_tables ! i))
             \<and> sheet_name (sheets ! i) \<noteq> []
             \<and> length (sheet_name (sheets ! i)) \<le> 31"
      using sheet_title_bounds by (simp add: to_excel_def)
  qed
  with sheets show "\<exists>sheets. separate_sheets sr all_tables = Inr sheets
         \<and> length sheets = length all_tables
         \<and> (\<forall>i<length all_tables.
               header (sheets ! i) = Some (columns (normalized (all_tables ! i)))
             \<and> body (sheets ! i) = rows (normalized (all_tables ! i))
             \<and> sheet_name (sheets ! i) \<noteq> []
             \<and> length (sheet_name (sheets ! i)) \<le> 31)"
    unfolding separate_sheets_def by blast
next
  assume a: "table_frame page_num table_idx table = Inr (Some df)
        \<and> count_list (table_header table) (Str ''_page'') \<le> 1
        \<and> count_list (table_header table) (Str ''_table'') \<le> 1"
  then have tf: "table_frame page_num table_idx table = Inr (Some df)" by simp
  from a show "separate_sheet sr df =
          Inr [to_excel (normalized df)
                 (take 31 (''Page'' @ str_nat (page_num + 1) @ ''_Table'' @ str_nat (table_idx + 1)))
                 True]"
    unfolding sheet_title_def [symmetric] separate_sheet_of_table_frame [OF tf]
    by (simp add: as_obj_single as_obj_def)
qed (simp_all add: sheet_title_def)

theorem separate_mode_sheet_names_witness:
  "all_frames [\<lparr>tables = [[[Some ''A'', Some ''B''], [Some ''1'', Some ''2''], [Some ''3'']]],
                 page_text = None\<rparr>]
     = Inr [\<lparr>columns = [Str ''A'', Str ''B'', Str ''_page'', Str ''_table''],
              rows = [[Str ''1'', Str ''2'', Num 1, Num 1], [Str ''3'', Null, Num 1, Num 1]]\<rparr>]
   \<and> separate_sheets (\<lambda>xs. [])
        [\<lparr>columns = [Str ''A'', Str ''B'', Str ''_page'', Str ''_table''],
              rows = [[Str ''1'', Str ''2'', Num 1, Num 1], [Str ''3'', Null, Num 1, Num 1]]\<rparr>]
     = Inr [\<lparr>sheet_name = ''Page1_Table1'', header = Some [Str ''A'', Str ''B''],
              body = [[Str ''1'', Str ''2''], [Str ''3'', Str '''']]\<rparr>]
   \<and> table_frame 0 0 [[Some ''A'', Some ''B''], [Some ''1'', Some ''2''], [Some ''3'']]
     = Inr (Some \<lparr>columns = [Str ''A'', Str ''B'', Str ''_page'', Str ''_table''],
              rows = [[Str ''1'', Str ''2'', Num 1, Num 1], [Str ''3'', Null, Num 1, Num 1]]\<rparr>)
   \<and> count_list (table_header [[Some ''A'', Some ''B''], [Some ''1'', Some ''2''], [Some ''3'']])
        (Str ''_page'') \<le> 1
   \<and> count_list (table_header [[Some ''A'', Some ''B''], [Some ''1'', Some ''2''], [Some ''3'']])
        (Str ''_table'') \<le> 1
   \<and> (1::nat) \<le> 1
   \<and> sheet_title (str_nat 1) (str_nat 1) = ''Page1_Table1''
   \<and> length (sheet_title (str_nat 1) (str_nat 1)) \<le> 31"
  using separate_mode_sheet_names [where p = 1 and t = 1 and sr = "\<lambda>xs. []"
      and page_num = 0 and table_idx = 0
      and table = "[[Some ''A'', Some ''B''], [Some ''1'', Some ''2''], [Some ''3'']]"
      and pages = "[\<lparr>tables = [[[Some ''A'', Some ''B''], [Some ''1'', Some ''2''], [Some ''3'']]],
                 page_text = None\<rparr>]"]
  by (simp add: frame_eval sheet_eval)

text \<open>
  C1. In merge mode the one sheet \<^verbatim>\<open>All Tables\<close> holds, for every table in input
  order, its header row, its data rows and one blank row; every row is filled up on the
  right with empty strings (and its nulls are empty strings), so that all rows are as
  long as the widest table has columns. The tables are frames that satisfy the frame
  invariant, as every frame of the extraction does (\<open>all_frames_rectangular\<close>), and
  there is at least one, as in the branch that merges. For a document whose tables give
  these frames, that sheet is the workbook the conversion writes.
\<close>

theorem merge_mode_layout:
  assumes "all_tables \<noteq> []" and "\<forall>df\<in>set all_tables. rectangular df"
  defines "w \<equiv> Max ((\<lambda>df. length (columns (drop_cols meta_labels df))) ` set all_tables)"
  shows "sheet_name (merged_sheet all_tables) = ''All Tables''
     \<and> header (merged_sheet all_tables) = None
     \<and> body (merged_sheet all_tables)
         = concat (map (\<lambda>df. map (\<lambda>r. map (fill_cell (Str '''')) r
                                          @ replicate (w - length r) (Str ''''))
                                  ([columns (drop_cols meta_labels df)]
                                   @ rows (drop_cols meta_labels df)
                                   @ [replicate (length (columns (drop_cols meta_labels df)))
                                        (Str '''')]))
                       all_tables)
     \<and> (\<forall>row\<in>set (body (merged_sheet all_tables)). length row = w)
     \<and> (fs pdf_path = Some (Pdf pages) \<and> all_frames pages = Inr all_tables
          \<and> writable ev excel_path \<longrightarrow>
            convert_single_file ev fs pdf_path excel_path True
              = Inr (fs(excel_path \<mapsto> Xlsx [merged_sheet all_tables])))"
proof -
  have w: "max_cols (merge_rows all_tables) = w"
    unfolding w_def using assms(1,2) by (rule max_cols_merge_rows)
  have body: "body (merged_sheet all_tables)
      = map (\<lambda>r. map (fill_cell (Str '''')) r @ replicate (w - length r) (Str ''''))
          (merge_rows all_tables)"
    by (simp add: merged_sheet_body w)
  have len: "\<forall>row\<in>set (body (merged_sheet all_tables)). length row = w"
    unfolding body using max_cols_ge [of _ "merge_rows all_tables"] w by auto
  have blocks: "body (merged_sheet all_tables)
         = concat (map (\<lambda>df. map (\<lambda>r. map (fill_cell (Str '''')) r
                                          @ replicate (w - length r) (Str ''''))
                                  ([columns (drop_cols meta_labels df)]
                                   @ rows (drop_cols meta_labels df)
                                   @ [replicate (length (columns (drop_cols meta_labels df)))
                                        (Str '''')]))
                       all_tables)"
    unfolding body merge_rows_def map_concat_map
    by (simp add: table_block_def Let_def)
  have written: "convert_single_file ev fs pdf_path excel_path True
              = Inr (fs(excel_path \<mapsto> Xlsx [merged_sheet all_tables]))"
    if "fs pdf_path = Some (Pdf pages) \<and> all_frames pages = Inr all_tables
          \<and> writable ev excel_path"
    using that assms(1) by (simp add: convert_single_file_tables)
  have name: "sheet_name (merged_sheet all_tables) = ''All Tables''
     \<and> header (merged_sheet all_tables) = None"
    by (simp add: merged_sheet_def Let_def to_excel_def)
  show ?thesis
    using name len blocks written by blast
qed

theorem merge_mode_layout_witness:
  "[\<lparr>columns = [Str ''A'', Str ''B'', Str ''_page'', Str ''_table''],
      rows = [[Str ''1'', Str ''2'', Num 1, Num 1]]\<rparr>,
    \<lparr>columns = [Str ''X'', Null, Str ''Z'', Str ''_page'', Str ''_table''],
      rows = [[Str ''7'', Null, Str ''9'', Num 1, Num 2]]\<rparr>] \<noteq> []
   \<and> rectangular \<lparr>columns = [Str ''A'', Str ''B'', Str ''_page'', Str ''_table''],
      rows = [[Str ''1'', Str ''2'', Num 1, Num 1]]\<rparr>
   \<and> rectangular \<lparr>columns = [Str ''X'', Null, Str ''Z'', Str ''_page'', Str ''_table''],
      rows = [[Str ''7'', Null, Str ''9'', Num 1, Num 2]]\<rparr>
   \<and> body (merged_sheet
        [\<lparr>columns = [Str ''A'', Str ''B'', Str ''_page'', Str ''_table''],
            rows = [[Str ''1'', Str ''2'', Num 1, Num 1]]\<rparr>,
         \<lparr>columns = [Str ''X'', Null, Str ''Z'', Str ''_page'', Str ''_table''],
            rows = [[Str ''7'', Null, Str ''9'', Num 1, Num 2]]\<rparr>])
     = [[Str ''A'', Str ''B'', Str ''''],
        [Str ''1'', Str ''2'', Str ''''],
        [Str '''', Str '''', Str ''''],
        [Str ''X'', Str '''', Str ''Z''],
        [Str ''7'', Str '''', Str ''9''],
        [Str '''', Str '''', Str '''']]"
  using merge_mode_layout [of
      "[\<lparr>columns = [Str ''A'', Str ''B'', Str ''_page'', Str ''_table''],
          rows = [[Str ''1'', Str ''2'', Num 1, Num 1]]\<rparr>,
        \<lparr>columns = [Str ''X'', Null, Str ''Z'', Str ''_page'', Str ''_table''],
          rows = [[Str ''7'', Null, Str ''9'', Num 1, Num 2]]\<rparr>]"]
  by (simp add: merge_eval)

text \<open>
  C2 (amended). A table with at least one data row gives a frame exactly when its
  longest data row is as long as its header; otherwise the frame's construction raises
  \<^verbatim>\<open>ValueError\<close>. When it gives one, the normalized table is rectangular: every data
  row is filled up on the right with empty strings to the header's length, every null
  cell is the empty string, and no null is left (the columns labelled \<^verbatim>\<open>_page\<close> or
  \<^verbatim>\<open>_table\<close> are dropped from header and rows alike). No row of the merged sheet
  holds a null either.
\<close>

theorem normalization_rectangular:
  assumes "table \<noteq> []" and "table_data table \<noteq> []"
  shows "(list_max (map length (table_data table)) \<noteq> length (table_header table) \<longrightarrow>
            table_frame page_num table_idx table = Inl ValueError)
     \<and> (list_max (map length (table_data table)) = length (table_header table) \<longrightarrow>
          (\<exists>df. table_frame page_num table_idx table = Inr (Some df)
             \<and> columns (normalized df) = filter (\<lambda>c. c \<notin> set meta_labels) (table_header table)
             \<and> rows (normalized df)
                 = map (\<lambda>r. keep_cells meta_labels (table_header table)
                              (map (fill_cell (Str '''')) (map of_raw r)
                               @ replicate (length (table_header table) - length r) (Str '''')))
                       (table_data table)
             \<and> (\<forall>r\<in>set (rows (normalized df)).
                    length r = length (columns (normalized df)) \<and> Null \<notin> set r)
             \<and> (set meta_labels \<inter> set (table_header table) = {} \<longrightarrow>
                    columns (normalized df) = table_header table
                  \<and> rows (normalized df)
                      = map (\<lambda>r. map (fill_cell (Str '''')) (map of_raw r)
                                   @ replicate (length (table_header table) - length r) (Str ''''))
                            (table_data table))))
     \<and> (\<forall>r\<in>set (body (merged_sheet all_tables)). Null \<notin> set r)"
proof (intro conjI impI)
  assume "list_max (map length (table_data table)) \<noteq> length (table_header table)"
  with assms show "table_frame page_num table_idx table = Inl ValueError"
    by (simp add: table_frame_def DataFrame_def comp_def)
next
  let ?H = "table_header table"
  let ?data = "map (map of_raw) (table_data table)"
  let ?base = "\<lparr>columns = ?H, rows = frame_content ?data\<rparr>"
  let ?frame = "setitem (setitem ?base (Str ''_page'') (Num (page_num + 1)))
               (Str ''_table'') (Num (table_idx + 1))"
  assume width: "list_max (map length (table_data table)) = length (table_header table)"
  with assms have df0: "DataFrame ?data ?H = Inr ?base"
    by (simp add: DataFrame_def comp_def)
  with assms have tf: "table_frame page_num table_idx table = Inr (Some ?frame)"
    by (simp add: table_frame_def)
  have rect0: "rectangular ?base"
    using df0 by (rule DataFrame_rectangular)
  have norm: "normalized ?frame = fillna (Str '''') (drop_cols meta_labels ?base)"
    using rect0 by (rule normalized_meta_frame)
  have cols: "columns (normalized ?frame) = filter (\<lambda>c. c \<notin> set meta_labels) ?H"
    unfolding norm by (simp add: fillna_def drop_cols_def)
  have rows: "rows (normalized ?frame)
                 = map (\<lambda>r. keep_cells meta_labels ?H
                              (map (fill_cell (Str '''')) (map of_raw r)
                               @ replicate (length ?H - length r) (Str '''')))
                       (table_data table)"
    unfolding norm using width
    by (simp add: fillna_def drop_cols_def frame_content_def comp_def keep_cells_map
        fill_cell_def)
  have "rectangular (normalized ?frame)"
    using tf by (intro normalized_rectangular table_frame_rectangular)
  then have inv: "\<forall>r\<in>set (rows (normalized ?frame)).
                    length r = length (columns (normalized ?frame)) \<and> Null \<notin> set r"
    using normalized_no_Null by (auto simp: rectangular_def)
  have plain: "columns (normalized ?frame) = ?H
                  \<and> rows (normalized ?frame)
                      = map (\<lambda>r. map (fill_cell (Str '''')) (map of_raw r)
                                   @ replicate (length ?H - length r) (Str ''''))
                            (table_data table)"
    if disj: "set meta_labels \<inter> set ?H = {}"
  proof -
    have "filter (\<lambda>c. c \<notin> set meta_labels) ?H = ?H"
      using disj by (auto simp: filter_id_conv)
    moreover have "keep_cells meta_labels ?H
                     (map (fill_cell (Str '''')) (map of_raw r)
                      @ replicate (length ?H - length r) (Str ''''))
                   = map (fill_cell (Str '''')) (map of_raw r)
                      @ replicate (length ?H - length r) (Str '''')"
      if "r \<in> set (table_data table)" for r
    proof -
      have "length r \<le> length ?H"
        using that width list_max_ge [of "length r" "map length (table_data table)"] by auto
      then show ?thesis
        using disj by (intro keep_cells_id) auto
    qed
    ultimately show ?thesis
      unfolding cols rows by (simp cong: map_cong)
  qed
  from tf cols rows inv plain
  show "\<exists>df. table_frame page_num table_idx table = Inr (Some df)
             \<and> columns (normalized df) = filter (\<lambda>c. c \<notin> set meta_labels) (table_header table)
             \<and> rows (normalized df)
                 = map (\<lambda>r. keep_cells meta_labels (table_header table)
                              (map (fill_cell (Str '''')) (map of_raw r)
                               @ replicate (length (table_header table) - length r) (Str '''')))
                       (table_data table)
             \<and> (\<forall>r\<in>set (rows (normalized df)).
                    length r = length (columns (normalized df)) \<and> Null \<notin> set r)
             \<and> (set meta_labels \<inter> set (table_header table) = {} \<longrightarrow>
                    columns (normalized df) = table_header table
                  \<and> rows (normalized df)
                      = map (\<lambda>r. map (fill_cell (Str '''')) (map of_raw r)
                                   @ replicate (length (table_header table) - length r) (Str ''''))
                            (table_data table))"
    by blast
next
  show "\<forall>r\<in>set (body (merged_sheet all_tables)). Null \<notin> set r"
    using merged_sheet_no_Null by blast
qed

theorem normalization_rectangular_witness:
  "[[Some ''A'', Some ''B''], [Some ''1'', Some ''2''], [Some ''3'']] \<noteq> []
   \<and> table_data [[Some ''A'', Some ''B''], [Some ''1'', Some ''2''], [Some ''3'']] \<noteq> []
   \<and> list_max (map length (table_data [[Some ''A'', Some ''B''], [Some ''1'', Some ''2''], [Some ''3'']]))
       = length (table_header [[Some ''A'', Some ''B''], [Some ''1'', Some ''2''], [Some ''3'']])
   \<and> table_frame 0 0 [[Some ''A'', Some ''B''], [Some ''1'', Some ''2''], [Some ''3'']]
       = Inr (Some \<lparr>columns = [Str ''A'', Str ''B'', Str ''_page'', Str ''_table''],
                     rows = [[Str ''1'', Str ''2'', Num 1, Num 1], [Str ''3'', Null, Num 1, Num 1]]\<rparr>)
   \<and> columns (normalized \<lparr>columns = [Str ''A'', Str ''B'', Str ''_page'', Str ''_table''],
                     rows = [[Str ''1'', Str ''2'', Num 1, Num 1], [Str ''3'', Null, Num 1, Num 1]]\<rparr>)
       = [Str ''A'', Str ''B'']
   \<and> rows (normalized \<lparr>columns = [Str ''A'', Str ''B'', Str ''_page'', Str ''_table''],
                     rows = [[Str ''1'', Str ''2'', Num 1, Num 1], [Str ''3'', Null, Num 1, Num 1]]\<rparr>)
       = [[Str ''1'', Str ''2''], [Str ''3'', Str '''']]"
  using normalization_rectangular [where page_num = 0 and table_idx = 0 and all_tables = "[]"
      and table = "[[Some ''A'', Some ''B''], [Some ''1'', Some ''2''], [Some ''3'']]"]
  by (simp add: frame_eval sheet_eval)

text \<open>
  C2 as stated fails: the table with header \<open>A, B\<close> and the one data row \<open>1\<close> has a
  data row, and its data row is shorter than the header, but no table comes out: the
  frame's construction raises \<^verbatim>\<open>ValueError\<close>.
\<close>

theorem normalization_rectangular_counterexample:
  "[[Some ''A'', Some ''B''], [Some ''1'']] \<noteq> []
   \<and> table_data [[Some ''A'', Some ''B''], [Some ''1'']] = [[Some ''1'']]
   \<and> table_header [[Some ''A'', Some ''B''], [Some ''1'']] = [Str ''A'', Str ''B'']
   \<and> table_frame 0 0 [[Some ''A'', Some ''B''], [Some ''1'']] = Inl ValueError"
  by (simp add: frame_eval)

text \<open>
  C4 (amended). When the extraction of a document gives no frame, the converter makes
  one record \<open>(page number, text)\<close> for every page whose text is not empty, in page
  order, and writes them as the one sheet \<^verbatim>\<open>Text Content\<close> with the columns
  \<^verbatim>\<open>Page\<close> and \<^verbatim>\<open>Content\<close>; without any such page it raises the
  no-content exception, and then (as for a path that cannot be written) no file is
  written.
\<close>

theorem text_fallback:
  assumes "fs pdf_path = Some (Pdf pages)" and "all_frames pages = Inr []"
  shows "text_records pages
           = map (\<lambda>i. (i + 1, the (page_text (pages ! i))))
               (filter (\<lambda>i. page_text (pages ! i) \<noteq> None \<and> page_text (pages ! i) \<noteq> Some [])
                  [0..<length pages])
     \<and> convert_single_file ev fs pdf_path excel_path merge_tables
         = (if text_records pages = [] then Inl NoContent
            else if writable ev excel_path
            then Inr (fs(excel_path \<mapsto>
                   Xlsx [\<lparr>sheet_name = ''Text Content'',
                           header = Some [Str ''Page'', Str ''Content''],
                           body = map (\<lambda>(n, t). [Num n, Str t]) (text_records pages)\<rparr>]))
            else Inl WriteError)"
proof (rule conjI)
  show "text_records pages
           = map (\<lambda>i. (i + 1, the (page_text (pages ! i))))
               (filter (\<lambda>i. page_text (pages ! i) \<noteq> None \<and> page_text (pages ! i) \<noteq> Some [])
                  [0..<length pages])"
    by (rule text_records_index)
qed (use assms in \<open>rule convert_single_file_text\<close>)

theorem text_fallback_witness:
  "(Map.empty(''in.pdf'' \<mapsto> Pdf [\<lparr>tables = [], page_text = Some ''hello''\<rparr>])) ''in.pdf''
     = Some (Pdf [\<lparr>tables = [], page_text = Some ''hello''\<rparr>])
   \<and> all_frames [\<lparr>tables = [], page_text = Some ''hello''\<rparr>] = Inr []
   \<and> text_records [\<lparr>tables = [], page_text = Some ''hello''\<rparr>] = [(1, ''hello'')]
   \<and> (case convert_single_file \<lparr>writable = (\<lambda>p. True), series_str = (\<lambda>xs. [])\<rparr>
              (Map.empty(''in.pdf'' \<mapsto> Pdf [\<lparr>tables = [], page_text = Some ''hello''\<rparr>]))
              ''in.pdf'' ''out.xlsx'' True of
         Inl e \<Rightarrow> None
       | Inr fs' \<Rightarrow> fs' ''out.xlsx'')
       = Some (Xlsx [\<lparr>sheet_name = ''Text Content'',
                       header = Some [Str ''Page'', Str ''Content''],
                       body = [[Num 1, Str ''hello'']]\<rparr>])"
  using text_fallback [where pages = "[\<lparr>tables = [], page_text = Some ''hello''\<rparr>]"
      and fs = "Map.empty(''in.pdf'' \<mapsto> Pdf [\<lparr>tables = [], page_text = Some ''hello''\<rparr>])"
      and pdf_path = "''in.pdf''" and excel_path = "''out.xlsx''" and merge_tables = True
      and ev = "\<lparr>writable = (\<lambda>p. True), series_str = (\<lambda>xs. [])\<rparr>"]
  by (simp add: frame_eval text_records_def)

text \<open>
  C4 as stated fails: a document of two pages without tables, the first page without
  text, gives one record, not one per page.
\<close>

theorem text_fallback_counterexample:
  "all_frames [\<lparr>tables = [], page_text = Some ''''\<rparr>, \<lparr>tables = [], page_text = Some ''x''\<rparr>] = Inr []
   \<and> text_records [\<lparr>tables = [], page_text = Some ''''\<rparr>, \<lparr>tables = [], page_text = Some ''x''\<rparr>]
       = [(2, ''x'')]
   \<and> length (text_records [\<lparr>tables = [], page_text = Some ''''\<rparr>, \<lparr>tables = [], page_text = Some ''x''\<rparr>])
       \<noteq> length [\<lparr>tables = [], page_text = Some ''''\<rparr>, \<lparr>tables = [], page_text = Some ''x''\<rparr>]"
  by (simp add: frame_eval text_records_def)

text \<open>
  C6. When the conversion of one queued file fails, the batch still runs every other
  file: the files it leaves are those of the same batch without the failing entry, the
  failure is reported in one message that names the file, and the other messages are
  unchanged.
\<close>

theorem batch_failure_isolated:
  assumes "convert_single_file ev (files (foldl (attempt ev merge_tables) st before))
             pdf_path excel_path merge_tables = Inl e"
  shows "files (convert_files ev (before @ (pdf_path, excel_path) # after) merge_tables st)
           = files (convert_files ev (before @ after) merge_tables st)
     \<and> (\<exists>ms. messages (convert_files ev (before @ (pdf_path, excel_path) # after) merge_tables st)
                = messages (foldl (attempt ev merge_tables) st before)
                  @ ConversionFailed pdf_path e # ms
            \<and> messages (convert_files ev (before @ after) merge_tables st)
                = messages (foldl (attempt ev merge_tables) st before) @ ms)"
proof -
  let ?s = "foldl (attempt ev merge_tables) st before"
  let ?f = "attempt ev merge_tables ?s (pdf_path, excel_path)"
  have failed: "?f = ?s\<lparr>messages := messages ?s @ [ConversionFailed pdf_path e]\<rparr>"
    using assms by (simp add: attempt_def)
  then have same: "files ?f = files ?s"
    by simp
  have files: "files (foldl (attempt ev merge_tables) ?f after)
                 = files (foldl (attempt ev merge_tables) ?s after)"
    using same by (rule foldl_attempt_files)
  from foldl_attempt_messages [OF same] obtain ms where
    ms: "messages (foldl (attempt ev merge_tables) ?f after) = messages ?f @ ms"
        "messages (foldl (attempt ev merge_tables) ?s after) = messages ?s @ ms"
    by blast
  have "messages (convert_files ev (before @ (pdf_path, excel_path) # after) merge_tables st)
                = messages ?s @ ConversionFailed pdf_path e # (ms @ [Completed])"
    and "messages (convert_files ev (before @ after) merge_tables st)
                = messages ?s @ (ms @ [Completed])"
    using ms failed by (simp_all add: convert_files_def Let_def)
  moreover have "files (convert_files ev (before @ (pdf_path, excel_path) # after) merge_tables st)
           = files (convert_files ev (before @ after) merge_tables st)"
    using files by (simp add: convert_files_def Let_def)
  ultimately show ?thesis by blast
qed

theorem batch_failure_isolated_witness:
  "convert_single_file \<lparr>writable = (\<lambda>p. p \<noteq> ''bad.xlsx''), series_str = (\<lambda>xs. [])\<rparr>
      (files (foldl (attempt \<lparr>writable = (\<lambda>p. p \<noteq> ''bad.xlsx''), series_str = (\<lambda>xs. [])\<rparr> True)
                \<lparr>files = Map.empty(''a.pdf'' \<mapsto> Pdf [\<lparr>tables = [], page_text = Some ''hello''\<rparr>]),
                   messages = []\<rparr>
                [(''a.pdf'', ''a.xlsx'')]))
      ''a.pdf'' ''bad.xlsx'' True = Inl WriteError
   \<and> files (convert_files \<lparr>writable = (\<lambda>p. p \<noteq> ''bad.xlsx''), series_str = (\<lambda>xs. [])\<rparr>
              ([(''a.pdf'', ''a.xlsx'')] @ (''a.pdf'', ''bad.xlsx'') # [(''a.pdf'', ''c.xlsx'')]) True
              \<lparr>files = Map.empty(''a.pdf'' \<mapsto> Pdf [\<lparr>tables = [], page_text = Some ''hello''\<rparr>]),
                 messages = []\<rparr>) ''c.xlsx''
       = Some (Xlsx [\<lparr>sheet_name = ''Text Content'',
                       header = Some [Str ''Page'', Str ''Content''],
                       body = [[Num 1, Str ''hello'']]\<rparr>])
   \<and> files (convert_files \<lparr>writable = (\<lambda>p. p \<noteq> ''bad.xlsx''), series_str = (\<lambda>xs. [])\<rparr>
              ([(''a.pdf'', ''a.xlsx'')] @ (''a.pdf'', ''bad.xlsx'') # [(''a.pdf'', ''c.xlsx'')]) True
              \<lparr>files = Map.empty(''a.pdf'' \<mapsto> Pdf [\<lparr>tables = [], page_text = Some ''hello''\<rparr>]),
                 messages = []\<rparr>) ''bad.xlsx''
       = None
   \<and> messages (convert_files \<lparr>writable = (\<lambda>p. p \<noteq> ''bad.xlsx''), series_str = (\<lambda>xs. [])\<rparr>
              ([(''a.pdf'', ''a.xlsx'')] @ (''a.pdf'', ''bad.xlsx'') # [(''a.pdf'', ''c.xlsx'')]) True
              \<lparr>files = Map.empty(''a.pdf'' \<mapsto> Pdf [\<lparr>tables = [], page_text = Some ''hello''\<rparr>]),
                 messages = []\<rparr>)
       = [ConversionFailed ''a.pdf'' WriteError, Completed]"
  using batch_failure_isolated [where e = WriteError and merge_tables = True
      and pdf_path = "''a.pdf''" and excel_path = "''bad.xlsx''"
      and before = "[(''a.pdf'', ''a.xlsx'')]" and after = "[(''a.pdf'', ''c.xlsx'')]"
      and ev = "\<lparr>writable = (\<lambda>p. p \<noteq> ''bad.xlsx''), series_str = (\<lambda>xs. [])\<rparr>"
      and st = "\<lparr>files = Map.empty(''a.pdf'' \<mapsto> Pdf [\<lparr>tables = [], page_text = Some ''hello''\<rparr>]),
                 messages = []\<rparr>"]
  by (simp add: batch_eval frame_eval)

text \<open>
  C7. Canvas to document divides both coordinates by \<open>zoom_level * 1.5\<close>, document to
  canvas multiplies them by the same factor (the selection frame is drawn at the scaled
  corners, 3 pixels out), and for a zoom level from 0.5 to 3.0 scaling a document point
  to the canvas and back gives the point again. Coordinates are real numbers here, so
  the round trip is exact; the rounding of floats is outside the model.
\<close>

theorem coordinate_round_trip:
  assumes "0.5 \<le> zoom_level s" and "zoom_level s \<le> 3.0"
  shows "canvas_to_pdf_point s c = Inr (fst c / (zoom_level s * 1.5), snd c / (zoom_level s * 1.5))
     \<and> pdf_to_canvas_point s p = (fst p * (zoom_level s * 1.5), snd p * (zoom_level s * 1.5))
     \<and> highlight_selected_annot s r =
          \<lparr>x0 = fst (pdf_to_canvas_point s (x0 r, y0 r)) - 3,
            y0 = snd (pdf_to_canvas_point s (x0 r, y0 r)) - 3,
            x1 = fst (pdf_to_canvas_point s (x1 r, y1 r)) + 3,
            y1 = snd (pdf_to_canvas_point s (x1 r, y1 r)) + 3\<rparr>
     \<and> canvas_to_pdf_point s (pdf_to_canvas_point s p) = Inr p"
  using assms
  by (simp add: canvas_to_pdf_point_def pdf_to_canvas_point_def highlight_selected_annot_def
      Let_def)

theorem coordinate_round_trip_witness:
  "0.5 \<le> zoom_level (init_editor\<lparr>zoom_level := 2\<rparr>)
   \<and> zoom_level (init_editor\<lparr>zoom_level := 2\<rparr>) \<le> 3.0
   \<and> pdf_to_canvas_point (init_editor\<lparr>zoom_level := 2\<rparr>) (10, 20) = (30, 60)
   \<and> canvas_to_pdf_point (init_editor\<lparr>zoom_level := 2\<rparr>) (30, 60) = Inr (10, 20)
   \<and> canvas_to_pdf_point (init_editor\<lparr>zoom_level := 2\<rparr>)
        (pdf_to_canvas_point (init_editor\<lparr>zoom_level := 2\<rparr>) (10, 20)) = Inr (10, 20)"
  using coordinate_round_trip [where s = "init_editor\<lparr>zoom_level := 2\<rparr>" and p = "(10, 20)"
      and c = "(30, 60)"]
  by (simp add: editor_eval)





text \<open>
  C10. With a document open and a path chosen, a save that succeeds clears the modified
  flag (and reports the path); a save that raises reports the error and leaves the
  state, the modified flag included, as it was. Without a path nothing changes.
\<close>

theorem save_clears_modified_on_success_only:
  assumes "current_pdf s = Some d"
  shows "(save_path \<noteq> [] \<longrightarrow>
            save_pdf save_path None s
              = s\<lparr>saved := saved s @ [(save_path, d)], modified := False,
                  notices := notices s @ [ShowInfo save_path]\<rparr>
          \<and> modified (save_pdf save_path None s) = False
          \<and> save_pdf save_path (Some e) s = s\<lparr>notices := notices s @ [ShowError e]\<rparr>
          \<and> modified (save_pdf save_path (Some e) s) = modified s)
     \<and> save_pdf [] failure s = s"
  using assms by (simp add: save_pdf_def)

theorem save_clears_modified_on_success_only_witness:
  "current_pdf (init_editor\<lparr>current_pdf := Some empty_document, modified := True\<rparr>)
     = Some empty_document
   \<and> ''out.pdf'' \<noteq> []
   \<and> modified (save_pdf ''out.pdf'' None
        (init_editor\<lparr>current_pdf := Some empty_document, modified := True\<rparr>)) = False
   \<and> modified (save_pdf ''out.pdf'' (Some WriteError)
        (init_editor\<lparr>current_pdf := Some empty_document, modified := True\<rparr>)) = True
   \<and> notices (save_pdf ''out.pdf'' (Some WriteError)
        (init_editor\<lparr>current_pdf := Some empty_document, modified := True\<rparr>))
       = [ShowError WriteError]
   \<and> modified (save_pdf [] None
        (init_editor\<lparr>current_pdf := Some empty_document, modified := True\<rparr>)) = True"
  using save_clears_modified_on_success_only [where save_path = "''out.pdf''"
      and e = WriteError and failure = None and d = empty_document
      and s = "init_editor\<lparr>current_pdf := Some empty_document, modified := True\<rparr>"]
  by (simp add: init_editor_def)

end
